theory Spec2Isabelle
  imports Complex_Main
begin

section \<open>JavaScript numbers\<close>

text \<open>
  A JavaScript number is an IEEE-754 double. The embedding keeps the special values
  (the two infinities and NaN) and computes on the finite values with exact real
  arithmetic: rounding, overflow to infinity and the sign of zero are not modelled
  (a zero divisor is read as \<open>+0\<close>). Division by zero and the propagation of NaN,
  which the geometry code can meet, are modelled as the standard defines them.
\<close>

datatype jsnum = Fin real | PInf | NInf | NaN

fun jneg :: "jsnum \<Rightarrow> jsnum" where
  "jneg (Fin a) = Fin (- a)"
| "jneg PInf = NInf"
| "jneg NInf = PInf"
| "jneg NaN = NaN"

fun jadd :: "jsnum \<Rightarrow> jsnum \<Rightarrow> jsnum" where
  "jadd (Fin a) (Fin b) = Fin (a + b)"
| "jadd NaN _ = NaN"
| "jadd _ NaN = NaN"
| "jadd PInf NInf = NaN"
| "jadd NInf PInf = NaN"
| "jadd PInf _ = PInf"
| "jadd _ PInf = PInf"
| "jadd NInf _ = NInf"
| "jadd _ NInf = NInf"

definition jsub :: "jsnum \<Rightarrow> jsnum \<Rightarrow> jsnum" where
  "jsub a b = jadd a (jneg b)"

text \<open>The sign of a product or quotient with an infinite operand.\<close>

definition jsigned_inf :: "bool \<Rightarrow> jsnum" where
  "jsigned_inf positive = (if positive then PInf else NInf)"

fun jmul :: "jsnum \<Rightarrow> jsnum \<Rightarrow> jsnum" where
  "jmul (Fin a) (Fin b) = Fin (a * b)"
| "jmul NaN _ = NaN"
| "jmul _ NaN = NaN"
| "jmul (Fin a) PInf = (if a = 0 then NaN else jsigned_inf (0 < a))"
| "jmul (Fin a) NInf = (if a = 0 then NaN else jsigned_inf (a < 0))"
| "jmul PInf (Fin b) = (if b = 0 then NaN else jsigned_inf (0 < b))"
| "jmul NInf (Fin b) = (if b = 0 then NaN else jsigned_inf (b < 0))"
| "jmul PInf PInf = PInf"
| "jmul NInf NInf = PInf"
| "jmul PInf NInf = NInf"
| "jmul NInf PInf = NInf"

fun jdiv :: "jsnum \<Rightarrow> jsnum \<Rightarrow> jsnum" where
  "jdiv (Fin a) (Fin b) =
     (if b = 0 then (if a = 0 then NaN else jsigned_inf (0 < a)) else Fin (a / b))"
| "jdiv NaN _ = NaN"
| "jdiv _ NaN = NaN"
| "jdiv (Fin a) PInf = Fin 0"
| "jdiv (Fin a) NInf = Fin 0"
| "jdiv PInf (Fin b) = jsigned_inf (0 \<le> b)"
| "jdiv NInf (Fin b) = jsigned_inf (b < 0)"
| "jdiv PInf PInf = NaN"
| "jdiv PInf NInf = NaN"
| "jdiv NInf PInf = NaN"
| "jdiv NInf NInf = NaN"

text \<open>Comparison \<open><\<close>: false as soon as one operand is NaN.\<close>

fun jlt :: "jsnum \<Rightarrow> jsnum \<Rightarrow> bool" where
  "jlt (Fin a) (Fin b) = (a < b)"
| "jlt NaN _ = False"
| "jlt _ NaN = False"
| "jlt NInf NInf = False"
| "jlt NInf _ = True"
| "jlt PInf _ = False"
| "jlt _ PInf = True"
| "jlt _ NInf = False"

definition jgt :: "jsnum \<Rightarrow> jsnum \<Rightarrow> bool" where
  "jgt a b = jlt b a"

text \<open>Strict equality \<open>===\<close> on numbers: NaN is not equal to itself.\<close>

fun jeq :: "jsnum \<Rightarrow> jsnum \<Rightarrow> bool" where
  "jeq NaN _ = False"
| "jeq _ NaN = False"
| "jeq a b = (a = b)"

text \<open>\<open>Math.min\<close>, \<open>Math.max\<close> and \<open>Math.floor\<close>.\<close>

fun Math_min :: "jsnum \<Rightarrow> jsnum \<Rightarrow> jsnum" where
  "Math_min NaN _ = NaN"
| "Math_min _ NaN = NaN"
| "Math_min a b = (if jlt b a then b else a)"

fun Math_max :: "jsnum \<Rightarrow> jsnum \<Rightarrow> jsnum" where
  "Math_max NaN _ = NaN"
| "Math_max _ NaN = NaN"
| "Math_max a b = (if jlt a b then b else a)"

fun Math_floor :: "jsnum \<Rightarrow> jsnum" where
  "Math_floor (Fin a) = Fin (of_int \<lfloor>a\<rfloor>)"
| "Math_floor v = v"


section \<open>The retry helper of the model client\<close>

text \<open>
  \<open>callWithRetry\<close> (services/geminiService) runs \<open>fn\<close> up to \<open>MAX_RETRIES\<close> times.
  The wrapped function is an effectful thunk: \<open>fn k\<close> is what its invocation number
  \<open>k\<close> (from 0) does, \<open>Inr v\<close> when the promise resolves with \<open>v\<close> and \<open>Inl m\<close> when
  it throws an error whose message is \<open>m\<close>. The run returns what the helper returns
  (\<open>Inl m\<close>: it throws an error with message \<open>m\<close>), how many times \<open>fn\<close> was invoked, and
  the delays it slept, in milliseconds and in order. The optional logger only prints.
\<close>

definition MAX_RETRIES :: nat where
  "MAX_RETRIES = 3"

record 'a retry_run =
  outcome :: "string + 'a"
  invocations :: nat
  delays :: "nat list"

text \<open>\<open>lastError?.message || 'Unknown error'\<close>: no error, or an empty message, gives the default.\<close>

definition lastErrorMessage :: "string option \<Rightarrow> string" where
  "lastErrorMessage lastError =
     (case lastError of None \<Rightarrow> ''Unknown error''
      | Some m \<Rightarrow> if m = [] then ''Unknown error'' else m)"

definition failedAfter :: "string option \<Rightarrow> string" where
  "failedAfter lastError = ''Failed after 3 attempts. Last error: '' @ lastErrorMessage lastError"

function callWithRetry_loop ::
  "(nat \<Rightarrow> string + 'a) \<Rightarrow> nat \<Rightarrow> string option \<Rightarrow> nat list \<Rightarrow> 'a retry_run" where
  "callWithRetry_loop fn attempt lastError slept =
     (if attempt < MAX_RETRIES then
        (case fn attempt of
           Inr v \<Rightarrow> \<lparr>outcome = Inr v, invocations = attempt + 1, delays = slept\<rparr>
         | Inl m \<Rightarrow>
             if attempt < MAX_RETRIES - 1
             then callWithRetry_loop fn (attempt + 1) (Some m) (slept @ [1000 * (attempt + 1)])
             else callWithRetry_loop fn (attempt + 1) (Some m) slept)
      else \<lparr>outcome = Inl (failedAfter lastError), invocations = attempt, delays = slept\<rparr>)"
  by pat_completeness auto
termination
  by (relation "measure (\<lambda>(fn, attempt, lastError, slept). MAX_RETRIES - attempt)") auto

definition callWithRetry :: "(nat \<Rightarrow> string + 'a) \<Rightarrow> 'a retry_run" where
  "callWithRetry fn = callWithRetry_loop fn 0 None []"


section \<open>The data model\<close>

text \<open>
  The interfaces of \<open>types.ts\<close>. Record fields carry a prefix, since a field name is a
  constant of the theory; an optional field (\<open>prompt?\<close>, \<open>targetObjectLabel?\<close>) is an
  \<open>option\<close>, with \<open>None\<close> for \<open>undefined\<close>.
\<close>

record ImageFile =
  if_id :: string
  if_dataUrl :: string

record GeneratedResult =
  gr_id :: string
  gr_image :: string
  gr_text :: string

record DropCoordinates =
  dc_x :: jsnum
  dc_y :: jsnum

record SegmentationMask =
  sm_label :: string
  sm_mask :: string
  sm_color :: string

record EditMarker =
  em_id :: string
  em_x :: jsnum
  em_y :: jsnum
  em_prompt :: string
  em_targetObjectLabel :: "string option"

record AssetMarker =
  am_id :: string
  am_assetId :: string
  am_x :: jsnum
  am_y :: jsnum
  am_color :: string
  am_prompt :: "string option"
  am_targetObjectLabel :: "string option"

text \<open>
  \<open>Partial<EditMarker>\<close> and \<open>Partial<AssetMarker>\<close>: every field may be absent (\<open>None\<close>)
  or present with a value. For the optional fields, present-with-\<open>undefined\<close> is
  \<open>Some None\<close>.
\<close>

record PartialEditMarker =
  pem_id :: "string option"
  pem_x :: "jsnum option"
  pem_y :: "jsnum option"
  pem_prompt :: "string option"
  pem_targetObjectLabel :: "string option option"

record PartialAssetMarker =
  pam_id :: "string option"
  pam_assetId :: "string option"
  pam_x :: "jsnum option"
  pam_y :: "jsnum option"
  pam_color :: "string option"
  pam_prompt :: "string option option"
  pam_targetObjectLabel :: "string option option"

text \<open>The object spread \<open>{ ...m, ...newProps }\<close>: a field present in \<open>newProps\<close> wins.\<close>

definition spread :: "'a \<Rightarrow> 'a option \<Rightarrow> 'a" where
  "spread old new = (case new of None \<Rightarrow> old | Some v \<Rightarrow> v)"

definition spreadEditMarker :: "EditMarker \<Rightarrow> PartialEditMarker \<Rightarrow> EditMarker" where
  "spreadEditMarker m newProps =
     \<lparr>em_id = spread (em_id m) (pem_id newProps),
      em_x = spread (em_x m) (pem_x newProps),
      em_y = spread (em_y m) (pem_y newProps),
      em_prompt = spread (em_prompt m) (pem_prompt newProps),
      em_targetObjectLabel = spread (em_targetObjectLabel m) (pem_targetObjectLabel newProps)\<rparr>"

definition spreadAssetMarker :: "AssetMarker \<Rightarrow> PartialAssetMarker \<Rightarrow> AssetMarker" where
  "spreadAssetMarker m newProps =
     \<lparr>am_id = spread (am_id m) (pam_id newProps),
      am_assetId = spread (am_assetId m) (pam_assetId newProps),
      am_x = spread (am_x m) (pam_x newProps),
      am_y = spread (am_y m) (pam_y newProps),
      am_color = spread (am_color m) (pam_color newProps),
      am_prompt = spread (am_prompt m) (pam_prompt newProps),
      am_targetObjectLabel = spread (am_targetObjectLabel m) (pam_targetObjectLabel newProps)\<rparr>"


section \<open>The application state and its handlers\<close>

text \<open>
  The state of the \<open>App\<close> component: one field for each \<open>useState\<close> cell that a handler
  below reads or writes. The cells that only drive presentation (the loading message, the
  creativity slider, the grid switch, the result modal, the developer console and its log)
  are left out, and so are the \<open>log\<close> calls of the handlers. \<open>canvasOffset\<close> is the
  pair \<open>(x, y)\<close>.
\<close>

definition MARKER_COLORS :: "string list" where
  "MARKER_COLORS = [''#34D399'', ''#60A5FA'', ''#FBBF24'', ''#A78BFA'', ''#F87171'', ''#F472B6'']"

definition MIN_ZOOM :: jsnum where "MIN_ZOOM = Fin (2 / 10)"
definition MAX_ZOOM :: jsnum where "MAX_ZOOM = Fin 5"
definition ZOOM_STEP :: jsnum where "ZOOM_STEP = Fin (12 / 10)"

record EditorState =
  es_baseImage :: "ImageFile option"
  es_insertImages :: "ImageFile list"
  es_markers :: "EditMarker list"
  es_assetMarkers :: "AssetMarker list"

record app =
  baseImage :: "ImageFile option"
  insertImages :: "ImageFile list"
  markers :: "EditMarker list"
  assetMarkers :: "AssetMarker list"
  generatedResults :: "GeneratedResult list"
  isLoading :: bool
  error :: "string option"
  numVariations :: nat
  aspectRatio :: string
  activeResultId :: "string option"
  lastColorIndex :: nat
  zoom :: jsnum
  canvasOffset :: "jsnum \<times> jsnum"
  isCompareMode :: bool
  imageContext :: "string option"
  isSegmenting :: bool
  segmentationData :: "SegmentationMask list option"
  hoveredMaskLabel :: "string option"
  sliderPosition :: jsnum
  isSliderDragging :: bool
  history :: "EditorState list"

text \<open>The initial values of the \<open>useState\<close> cells.\<close>

definition initialApp :: app where
  "initialApp =
     \<lparr>baseImage = None, insertImages = [], markers = [], assetMarkers = [],
      generatedResults = [], isLoading = False, error = None, numVariations = 1,
      aspectRatio = ''freeform'', activeResultId = None, lastColorIndex = 0,
      zoom = Fin 1, canvasOffset = (Fin 0, Fin 0), isCompareMode = False,
      imageContext = None, isSegmenting = False, segmentationData = None,
      hoveredMaskLabel = None, sliderPosition = Fin (1 / 2), isSliderDragging = False,
      history = []\<rparr>"

text \<open>
  The bounding rectangle of the canvas container, \<open>getBoundingClientRect()\<close>. Where the
  code reads \<open>canvasRef.current\<close>, the model takes a \<open>DOMRect option\<close>: \<open>None\<close> when the
  ref is not attached.
\<close>

record DOMRect =
  rect_left :: real
  rect_top :: real
  rect_width :: real
  rect_height :: real

definition saveStateToHistory :: "app \<Rightarrow> app" where
  "saveStateToHistory s =
     s\<lparr>history := history s @
        [\<lparr>es_baseImage = baseImage s, es_insertImages = insertImages s,
          es_markers = markers s, es_assetMarkers = assetMarkers s\<rparr>]\<rparr>"

definition handleUndo :: "app \<Rightarrow> app" where
  "handleUndo s =
     (if history s = [] then s
      else
        let prevState = last (history s) in
        s\<lparr>baseImage := es_baseImage prevState,
          insertImages := es_insertImages prevState,
          markers := es_markers prevState,
          assetMarkers := es_assetMarkers prevState,
          history := butlast (history s),
          generatedResults := [],
          activeResultId := None,
          error := None,
          isCompareMode := False,
          segmentationData := None,
          hoveredMaskLabel := None\<rparr>)"

definition handleSliderPositionChange :: "jsnum \<Rightarrow> app \<Rightarrow> app" where
  "handleSliderPositionChange position s =
     s\<lparr>sliderPosition := Math_max (Fin 0) (Math_min (Fin 1) position)\<rparr>"

definition handleSliderDragStart :: "app \<Rightarrow> app" where
  "handleSliderDragStart s = s\<lparr>isSliderDragging := True\<rparr>"

definition handleSliderDragEnd :: "app \<Rightarrow> app" where
  "handleSliderDragEnd s = s\<lparr>isSliderDragging := False\<rparr>"

text \<open>
  The zoom buttons zoom about the centre of the container. Both return at once when
  the container is not attached or the clamped zoom is unchanged.
\<close>

definition handleZoomIn :: "DOMRect option \<Rightarrow> app \<Rightarrow> app" where
  "handleZoomIn canvas s =
     (case canvas of None \<Rightarrow> s
      | Some canvasRect \<Rightarrow>
        let newZoom = Math_min (jmul (zoom s) ZOOM_STEP) MAX_ZOOM in
        if jeq newZoom (zoom s) then s
        else
          let centerX = Fin (rect_width canvasRect / 2);
              centerY = Fin (rect_height canvasRect / 2);
              newOffsetX = jsub centerX (jmul (jdiv newZoom (zoom s))
                                              (jsub centerX (fst (canvasOffset s))));
              newOffsetY = jsub centerY (jmul (jdiv newZoom (zoom s))
                                              (jsub centerY (snd (canvasOffset s))))
          in s\<lparr>zoom := newZoom, canvasOffset := (newOffsetX, newOffsetY)\<rparr>)"

definition handleZoomOut :: "DOMRect option \<Rightarrow> app \<Rightarrow> app" where
  "handleZoomOut canvas s =
     (case canvas of None \<Rightarrow> s
      | Some canvasRect \<Rightarrow>
        let newZoom = Math_max (jdiv (zoom s) ZOOM_STEP) MIN_ZOOM in
        if jeq newZoom (zoom s) then s
        else
          let centerX = Fin (rect_width canvasRect / 2);
              centerY = Fin (rect_height canvasRect / 2);
              newOffsetX = jsub centerX (jmul (jdiv newZoom (zoom s))
                                              (jsub centerX (fst (canvasOffset s))));
              newOffsetY = jsub centerY (jmul (jdiv newZoom (zoom s))
                                              (jsub centerY (snd (canvasOffset s))))
          in s\<lparr>zoom := newZoom, canvasOffset := (newOffsetX, newOffsetY)\<rparr>)"

definition handleResetZoom :: "app \<Rightarrow> app" where
  "handleResetZoom s = s\<lparr>zoom := Fin 1, canvasOffset := (Fin 0, Fin 0)\<rparr>"

text \<open>
  \<open>getNextColor\<close> returns the palette entry at \<open>lastColorIndex\<close> and advances the index
  modulo the palette length. The index stays below the palette length in every state
  the handlers reach from \<open>initialApp\<close> (lemma \<open>run_lastColorIndex\<close>), so the array read
  is in range there.
\<close>

definition getNextColor :: "app \<Rightarrow> string \<times> app" where
  "getNextColor s =
     (MARKER_COLORS ! lastColorIndex s,
      s\<lparr>lastColorIndex := (lastColorIndex s + 1) mod length MARKER_COLORS\<rparr>)"

text \<open>
  \<open>handleBaseImageSet\<close> awaits the file reader and then the scene description; the model
  takes their outcomes (\<open>Inl\<close>: rejected) and returns the state once the handler has
  finished. The message shown on failure is a Russian sentence in the source; the
  constant below stands for it.
\<close>

definition loadFailedMessage :: string where
  "loadFailedMessage = ''Failed to load or analyse the image.''"

definition handleBaseImageSet :: "(string + ImageFile) \<Rightarrow> (string + string) \<Rightarrow> app \<Rightarrow> app" where
  "handleBaseImageSet fileRead described s =
     (let s1 = (if baseImage s \<noteq> None then saveStateToHistory s else s);
          s2 = handleResetZoom
                 (s1\<lparr>isLoading := True, baseImage := None, generatedResults := [],
                     activeResultId := None, markers := [], assetMarkers := [],
                     isCompareMode := False, imageContext := None,
                     segmentationData := None, hoveredMaskLabel := None, error := None\<rparr>);
          s3 = (case fileRead of
                  Inl _ \<Rightarrow> s2\<lparr>error := Some loadFailedMessage, baseImage := None\<rparr>
                | Inr imageFile \<Rightarrow>
                    (case described of
                       Inl _ \<Rightarrow> s2\<lparr>error := Some loadFailedMessage, baseImage := None\<rparr>
                     | Inr context \<Rightarrow>
                         s2\<lparr>baseImage := Some imageFile, imageContext := Some context\<rparr>))
      in s3\<lparr>isLoading := False\<rparr>)"

definition handleInsertImageAdd :: "(string + ImageFile list) \<Rightarrow> app \<Rightarrow> app" where
  "handleInsertImageAdd filesRead s =
     (let s1 = saveStateToHistory s in
      case filesRead of
        Inr imageFiles \<Rightarrow> s1\<lparr>insertImages := insertImages s1 @ imageFiles\<rparr>
      | Inl _ \<Rightarrow> s1\<lparr>error := Some ''Failed to load insert image(s).''\<rparr>)"

definition handleClearInsertImages :: "app \<Rightarrow> app" where
  "handleClearInsertImages s =
     (let s1 = (if 0 < length (insertImages s) \<or> 0 < length (assetMarkers s)
                then saveStateToHistory s else s)
      in s1\<lparr>insertImages := [], assetMarkers := []\<rparr>)"


subsection \<open>Generation requests\<close>

text \<open>
  A generation request starts \<open>numVariations\<close> calls of one collaborator and awaits
  \<open>Promise.all\<close> of them. Each call is the retry helper around a model request, so it
  settles once: it resolves with a list of results (\<open>Inr\<close>) or rejects with an error
  message (\<open>Inl\<close>) after its retries. The model takes the settled calls from the
  environment, each with the time at which it settled.

  \<open>Promise.all\<close> resolves with the values in the order of the promises when all of
  them resolve, and rejects with the reason of the promise that rejected first (of
  two that reject at the same time, the earlier in the list).
\<close>

type_synonym 'a settled = "nat \<times> (string + 'a)"

definition earliest :: "'a settled \<Rightarrow> 'a settled list \<Rightarrow> 'a settled" where
  "earliest p ps = fold (\<lambda>q best. if fst q < fst best then q else best) ps p"

definition Promise_all :: "'a settled list \<Rightarrow> string + 'a list" where
  "Promise_all promises =
     (case filter (\<lambda>p. isl (snd p)) promises of
        [] \<Rightarrow> Inr (map (\<lambda>p. projr (snd p)) promises)
      | r # rs \<Rightarrow> Inl (projl (snd (earliest r rs))))"

datatype collaborator = EditText | EditImage | SceneWithMultipleAssets | SceneFromAssets

type_synonym model_calls = "collaborator \<Rightarrow> nat \<Rightarrow> GeneratedResult list settled"

text \<open>
  \<open>crypto.randomUUID()\<close>: a handler takes the identifiers it draws as a function, \<open>uuid k\<close>
  being the \<open>k\<close>-th identifier drawn during the call (from 0).
  \<open>results.flat().map(res => ({ ...res, id: crypto.randomUUID() }))\<close>:
\<close>

definition withFreshIds :: "(nat \<Rightarrow> string) \<Rightarrow> GeneratedResult list \<Rightarrow> GeneratedResult list" where
  "withFreshIds uuid rs = map (\<lambda>(k, res). res\<lparr>gr_id := uuid k\<rparr>) (enumerate 0 rs)"

text \<open>\<open>err.message || fallback\<close>.\<close>

definition messageOr :: "string \<Rightarrow> string \<Rightarrow> string" where
  "messageOr message fallback = (if message = [] then fallback else message)"

text \<open>\<open>startLoading\<close>, without its rotating messages; \<open>finally\<close> clears \<open>isLoading\<close>.\<close>

definition startLoading :: "app \<Rightarrow> app" where
  "startLoading s = s\<lparr>isLoading := True, error := None\<rparr>"

text \<open>
  \<open>handleAssetGeneration\<close>, run as one step from the drop (or the regeneration request)
  to the end of its \<open>finally\<close> block. The prompt it builds only travels to the
  collaborator. Drops and generation requests are disabled while \<open>isLoading\<close> holds,
  so no second generation runs between the call and its continuation, and the colour
  index the closure captured is the one the continuation finds.
\<close>

definition handleAssetGeneration ::
  "(nat \<Rightarrow> string) \<Rightarrow> model_calls \<Rightarrow> string \<Rightarrow> DropCoordinates \<Rightarrow> string option \<Rightarrow> bool
     \<Rightarrow> app \<Rightarrow> app" where
  "handleAssetGeneration uuid call assetId coords targetObjectLabel isRegeneration s =
     (case (baseImage s, find (\<lambda>img. if_id img = assetId) (insertImages s)) of
        (Some base, Some insertImage) \<Rightarrow>
          (let s1 = (startLoading s)\<lparr>generatedResults := []\<rparr> in
           case Promise_all (map (call EditImage) [0..<numVariations s]) of
             Inl message \<Rightarrow>
               s1\<lparr>error := Some (messageOr message
                        ''An unexpected error occurred during asset generation.''),
                   isLoading := False\<rparr>
           | Inr results \<Rightarrow>
               (let successfulResults = withFreshIds uuid (concat results) in
                if length successfulResults = 0 then
                  s1\<lparr>error := Some
                        ''Generation failed. The model couldn't produce a valid result.'',
                      isLoading := False\<rparr>
                else
                  (let s2 = s1\<lparr>generatedResults := successfulResults,
                                activeResultId := Some (gr_id (hd successfulResults))\<rparr> in
                   if \<not> isRegeneration then
                     (let s3 = saveStateToHistory s2;
                          (color, s4) = getNextColor s3;
                          newMarker = \<lparr>am_id = uuid (length successfulResults),
                                       am_assetId = assetId,
                                       am_x = dc_x coords, am_y = dc_y coords,
                                       am_color = color, am_prompt = Some [],
                                       am_targetObjectLabel = targetObjectLabel\<rparr>
                      in s4\<lparr>assetMarkers := assetMarkers s4 @ [newMarker],
                            isLoading := False\<rparr>)
                   else s2\<lparr>isLoading := False\<rparr>)))
      | _ \<Rightarrow> s)"

definition handleAssetRegeneration :: "(nat \<Rightarrow> string) \<Rightarrow> model_calls \<Rightarrow> string \<Rightarrow> app \<Rightarrow> app" where
  "handleAssetRegeneration uuid call markerId s =
     (case find (\<lambda>m. am_id m = markerId) (assetMarkers s) of
        None \<Rightarrow> s
      | Some marker \<Rightarrow>
          handleAssetGeneration uuid call (am_assetId marker)
            \<lparr>dc_x = am_x marker, dc_y = am_y marker\<rparr> (am_targetObjectLabel marker) True s)"

definition handleMarkerGeneration :: "(nat \<Rightarrow> string) \<Rightarrow> model_calls \<Rightarrow> EditMarker \<Rightarrow> app \<Rightarrow> app" where
  "handleMarkerGeneration uuid call marker s =
     (case baseImage s of
        None \<Rightarrow> s
      | Some base \<Rightarrow>
          (let s1 = (startLoading s)\<lparr>generatedResults := []\<rparr> in
           case Promise_all (map (call EditText) [0..<numVariations s]) of
             Inl message \<Rightarrow>
               s1\<lparr>error := Some (messageOr message
                        ''An unexpected error occurred during image generation.''),
                   isLoading := False\<rparr>
           | Inr results \<Rightarrow>
               (let successfulResults = withFreshIds uuid (concat results) in
                if length successfulResults = 0 then
                  s1\<lparr>error := Some
                        ''Generation failed. The model couldn't produce a valid result.'',
                      isLoading := False\<rparr>
                else
                  s1\<lparr>generatedResults := successfulResults,
                      activeResultId := Some (gr_id (hd successfulResults)),
                      isLoading := False\<rparr>)))"

definition handleSceneGeneration :: "(nat \<Rightarrow> string) \<Rightarrow> model_calls \<Rightarrow> app \<Rightarrow> app" where
  "handleSceneGeneration uuid call s =
     (let hasBaseImage = (baseImage s \<noteq> None);
          hasAssets = (0 < length (insertImages s)) in
      if \<not> hasBaseImage \<and> \<not> hasAssets then
        s\<lparr>error := Some
             ''A base image or at least one asset is required for Generation Mode.''\<rparr>
      else
        (let s1 = (startLoading (saveStateToHistory s))\<lparr>generatedResults := []\<rparr>;
             promises =
               (if hasBaseImage \<and> hasAssets
                then map (call SceneWithMultipleAssets) [0..<numVariations s]
                else if hasBaseImage \<and> \<not> hasAssets
                then map (call EditText) [0..<numVariations s]
                else map (call SceneFromAssets) [0..<numVariations s]) in
         case Promise_all promises of
           Inl message \<Rightarrow>
             s1\<lparr>error := Some (messageOr message
                      ''An unexpected error occurred during scene generation.''),
                 isLoading := False\<rparr>
         | Inr results \<Rightarrow>
             (let successfulResults = withFreshIds uuid (concat results) in
              if length successfulResults = 0 then
                s1\<lparr>error := Some
                      ''Scene generation failed. The model couldn't produce a valid result.'',
                    isLoading := False\<rparr>
              else
                s1\<lparr>generatedResults := successfulResults,
                    activeResultId := Some (gr_id (hd successfulResults)),
                    markers := [], assetMarkers := [], isLoading := False\<rparr>)))"

definition handleSaveChanges :: "(nat \<Rightarrow> string) \<Rightarrow> app \<Rightarrow> app" where
  "handleSaveChanges uuid s =
     (let s1 = saveStateToHistory s in
      case find (\<lambda>r. Some (gr_id r) = activeResultId s) (generatedResults s) of
        Some resultToSave \<Rightarrow>
          s1\<lparr>baseImage := Some \<lparr>if_id = uuid 0, if_dataUrl = gr_image resultToSave\<rparr>,
              generatedResults := [], activeResultId := None, assetMarkers := [],
              markers := [], error := None, isCompareMode := False,
              sliderPosition := Fin (1 / 2), segmentationData := None\<rparr>
      | None \<Rightarrow> s1\<lparr>error := Some ''No result selected to save.''\<rparr>)"

subsection \<open>Markers\<close>

definition handleAddMarker :: "(nat \<Rightarrow> string) \<Rightarrow> DropCoordinates \<Rightarrow> string option \<Rightarrow> app \<Rightarrow> app" where
  "handleAddMarker uuid coords targetObjectLabel s =
     (let s1 = saveStateToHistory s;
          newMarker = \<lparr>em_id = uuid 0, em_x = dc_x coords, em_y = dc_y coords,
                       em_prompt = [], em_targetObjectLabel = targetObjectLabel\<rparr>
      in s1\<lparr>markers := markers s1 @ [newMarker]\<rparr>)"

definition handleUpdateMarker :: "string \<Rightarrow> PartialEditMarker \<Rightarrow> app \<Rightarrow> app" where
  "handleUpdateMarker ident newProps s =
     s\<lparr>markers := map (\<lambda>m. if em_id m = ident then spreadEditMarker m newProps else m)
                      (markers s)\<rparr>"

definition handleRemoveMarker :: "string \<Rightarrow> app \<Rightarrow> app" where
  "handleRemoveMarker ident s =
     (let s1 = saveStateToHistory s in
      s1\<lparr>markers := filter (\<lambda>m. em_id m \<noteq> ident) (markers s1)\<rparr>)"

definition handleUpdateAssetMarker :: "string \<Rightarrow> PartialAssetMarker \<Rightarrow> app \<Rightarrow> app" where
  "handleUpdateAssetMarker ident newProps s =
     s\<lparr>assetMarkers := map (\<lambda>m. if am_id m = ident then spreadAssetMarker m newProps else m)
                           (assetMarkers s)\<rparr>"

definition handleRemoveAssetMarker :: "string \<Rightarrow> app \<Rightarrow> app" where
  "handleRemoveAssetMarker ident s =
     (let s1 = saveStateToHistory s in
      s1\<lparr>assetMarkers := filter (\<lambda>m. am_id m \<noteq> ident) (assetMarkers s1)\<rparr>)"

subsection \<open>Runs of the application\<close>

text \<open>
  What the user and the environment can do to the application, one constructor for
  each handler above (with the outcomes the handler awaits), and the state setters the
  canvas and the controls receive. \<open>run\<close> applies a sequence of them in order.
\<close>

datatype app_event =
    BaseImageSet "string + ImageFile" "string + string"
  | InsertImageAdd "string + ImageFile list"
  | ClearInsertImages
  | AssetDrop "nat \<Rightarrow> string" model_calls string DropCoordinates "string option"
  | AssetRegeneration "nat \<Rightarrow> string" model_calls string
  | MarkerGeneration "nat \<Rightarrow> string" model_calls EditMarker
  | SceneGeneration "nat \<Rightarrow> string" model_calls
  | SaveChanges "nat \<Rightarrow> string"
  | Undo
  | AddMarker "nat \<Rightarrow> string" DropCoordinates "string option"
  | UpdateMarker string PartialEditMarker
  | RemoveMarker string
  | UpdateAssetMarker string PartialAssetMarker
  | RemoveAssetMarker string
  | ZoomIn "DOMRect option"
  | ZoomOut "DOMRect option"
  | ResetZoom
  | SetZoom jsnum
  | SetCanvasOffset "jsnum \<times> jsnum"
  | SetNumVariations nat
  | SetActiveResultId string
  | ToggleCompare
  | SetHoveredMaskLabel "string option"
  | SliderPositionChange jsnum
  | SliderDragStart
  | SliderDragEnd

fun step :: "app_event \<Rightarrow> app \<Rightarrow> app" where
  "step (BaseImageSet fileRead described) s = handleBaseImageSet fileRead described s"
| "step (InsertImageAdd filesRead) s = handleInsertImageAdd filesRead s"
| "step ClearInsertImages s = handleClearInsertImages s"
| "step (AssetDrop uuid call assetId coords label) s =
     handleAssetGeneration uuid call assetId coords label False s"
| "step (AssetRegeneration uuid call markerId) s = handleAssetRegeneration uuid call markerId s"
| "step (MarkerGeneration uuid call marker) s = handleMarkerGeneration uuid call marker s"
| "step (SceneGeneration uuid call) s = handleSceneGeneration uuid call s"
| "step (SaveChanges uuid) s = handleSaveChanges uuid s"
| "step Undo s = handleUndo s"
| "step (AddMarker uuid coords label) s = handleAddMarker uuid coords label s"
| "step (UpdateMarker ident newProps) s = handleUpdateMarker ident newProps s"
| "step (RemoveMarker ident) s = handleRemoveMarker ident s"
| "step (UpdateAssetMarker ident newProps) s = handleUpdateAssetMarker ident newProps s"
| "step (RemoveAssetMarker ident) s = handleRemoveAssetMarker ident s"
| "step (ZoomIn canvas) s = handleZoomIn canvas s"
| "step (ZoomOut canvas) s = handleZoomOut canvas s"
| "step ResetZoom s = handleResetZoom s"
| "step (SetZoom z) s = s\<lparr>zoom := z\<rparr>"
| "step (SetCanvasOffset offset) s = s\<lparr>canvasOffset := offset\<rparr>"
| "step (SetNumVariations n) s = s\<lparr>numVariations := n\<rparr>"
| "step (SetActiveResultId ident) s = s\<lparr>activeResultId := Some ident\<rparr>"
| "step ToggleCompare s = s\<lparr>isCompareMode := \<not> isCompareMode s\<rparr>"
| "step (SetHoveredMaskLabel label) s = s\<lparr>hoveredMaskLabel := label\<rparr>"
| "step (SliderPositionChange position) s = handleSliderPositionChange position s"
| "step SliderDragStart s = handleSliderDragStart s"
| "step SliderDragEnd s = handleSliderDragEnd s"

fun run :: "app_event list \<Rightarrow> app \<Rightarrow> app" where
  "run [] s = s"
| "run (e # es) s = run es (step e s)"

text \<open>
  The colours given to the asset markers a run creates, in the order of creation. An
  asset marker is created by an asset drop only, which appends it to \<open>assetMarkers\<close>
  when the generation succeeds and leaves the list alone otherwise.
\<close>

definition createdAssetMarker :: "app_event \<Rightarrow> app \<Rightarrow> AssetMarker list" where
  "createdAssetMarker e s =
     (case e of
        AssetDrop uuid call assetId coords label \<Rightarrow>
          drop (length (assetMarkers s)) (assetMarkers (step e s))
      | _ \<Rightarrow> [])"

fun createdAssetMarkers :: "app_event list \<Rightarrow> app \<Rightarrow> AssetMarker list" where
  "createdAssetMarkers [] s = []"
| "createdAssetMarkers (e # es) s = createdAssetMarker e s @ createdAssetMarkers es (step e s)"


subsection \<open>Observing a generation request\<close>

text \<open>
  The collaborator a scene generation calls in state \<open>s\<close> (its three branches), whether
  every call of a request resolved, and the values of those that did.
\<close>

definition sceneCollaborator :: "app \<Rightarrow> collaborator" where
  "sceneCollaborator s =
     (if baseImage s \<noteq> None \<and> 0 < length (insertImages s) then SceneWithMultipleAssets
      else if baseImage s \<noteq> None then EditText else SceneFromAssets)"

definition allFulfilled :: "'a settled list \<Rightarrow> bool" where
  "allFulfilled ps = list_all (\<lambda>p. \<not> isl (snd p)) ps"

definition fulfilledValues :: "'a settled list \<Rightarrow> 'a list" where
  "fulfilledValues ps = map (\<lambda>p. projr (snd p)) (filter (\<lambda>p. \<not> isl (snd p)) ps)"

text \<open>What the canvas receives as props: the image it displays and the disable gate.\<close>

definition displayImage :: "app \<Rightarrow> ImageFile option" where
  "displayImage s =
     (case find (\<lambda>r. Some (gr_id r) = activeResultId s) (generatedResults s) of
        Some activeResult \<Rightarrow> Some \<lparr>if_id = gr_id activeResult, if_dataUrl = gr_image activeResult\<rparr>
      | None \<Rightarrow> baseImage s)"

definition isDisabled :: "app \<Rightarrow> bool" where
  "isDisabled s = (isLoading s \<or> isSegmenting s)"


section \<open>The hit map\<close>

text \<open>
  The hidden hit canvas is a bitmap of RGBA pixels, each channel a byte. The 2D context
  operations are those of the HTML canvas: \<open>fillRect\<close> over the whole canvas with an
  opaque fill style under \<open>source-over\<close> replaces every pixel by the fill colour;
  drawing an image under \<open>destination-in\<close> scales the existing content by the alpha
  of the image, so it makes everything outside the image transparent; a transparent
  pixel reads as \<open>(0, 0, 0, 0)\<close>; \<open>getImageData\<close> outside the bitmap reads
  transparent black.

  The bitmap holds premultiplied pixels, as the backing store of a canvas does: a colour
  channel is stored multiplied by \<open>alpha / 255\<close>, and \<open>getImageData\<close> divides it
  back. Both conversions round to the nearest byte. They are exact at alpha 0 and
  255; at an alpha in between, the channel read back can differ from the one written
  (lemma \<open>semi_transparent_read_back\<close>).
\<close>

record rgba =
  px_r :: nat
  px_g :: nat
  px_b :: nat
  px_a :: nat

definition transparentBlack :: rgba where
  "transparentBlack = \<lparr>px_r = 0, px_g = 0, px_b = 0, px_a = 0\<rparr>"

text \<open>\<open>scaled c s\<close> is \<open>c * s / 255\<close>, rounded to the nearest byte.\<close>

definition scaled :: "nat \<Rightarrow> nat \<Rightarrow> nat" where
  "scaled c s = (c * s + 127) div 255"

text \<open>
  A stored pixel as \<open>getImageData\<close> returns it: each colour channel is
  \<open>c * 255 / alpha\<close>, rounded to the nearest byte.
\<close>

definition unpremultiplied :: "rgba \<Rightarrow> rgba" where
  "unpremultiplied p =
     (if px_a p = 0 then transparentBlack
      else \<lparr>px_r = min 255 ((px_r p * 255 + px_a p div 2) div px_a p),
            px_g = min 255 ((px_g p * 255 + px_a p div 2) div px_a p),
            px_b = min 255 ((px_b p * 255 + px_a p div 2) div px_a p),
            px_a = px_a p\<rparr>)"

record bitmap =
  bm_width :: nat
  bm_height :: nat
  bm_pixel :: "nat \<Rightarrow> nat \<Rightarrow> rgba"

text \<open>Setting \<open>width\<close> and \<open>height\<close> of a canvas gives a fresh transparent bitmap.\<close>

definition resized :: "nat \<Rightarrow> nat \<Rightarrow> bitmap" where
  "resized w h = \<lparr>bm_width = w, bm_height = h, bm_pixel = (\<lambda>x y. transparentBlack)\<rparr>"

definition clearRect_all :: "bitmap \<Rightarrow> bitmap" where
  "clearRect_all bm = bm\<lparr>bm_pixel := (\<lambda>x y. transparentBlack)\<rparr>"

text \<open>\<open>fillStyle = `rgb(0, 0, ${v})`\<close>: a channel above 255 is clamped by the colour parser.\<close>

definition fillRect_all :: "nat \<Rightarrow> bitmap \<Rightarrow> bitmap" where
  "fillRect_all v bm =
     bm\<lparr>bm_pixel := (\<lambda>x y. \<lparr>px_r = 0, px_g = 0, px_b = min v 255, px_a = 255\<rparr>)\<rparr>"

text \<open>
  \<open>drawImage(maskImg, 0, 0, width, height)\<close> under \<open>destination-in\<close>; \<open>alpha x y\<close> is the
  alpha of the mask image, scaled to the canvas, at pixel \<open>(x, y)\<close>.
\<close>

definition drawImage_destination_in :: "(nat \<Rightarrow> nat \<Rightarrow> nat) \<Rightarrow> bitmap \<Rightarrow> bitmap" where
  "drawImage_destination_in alpha bm =
     bm\<lparr>bm_pixel := (\<lambda>x y.
          let dst = bm_pixel bm x y; s = min (alpha x y) 255 in
          \<lparr>px_r = scaled (px_r dst) s, px_g = scaled (px_g dst) s,
           px_b = scaled (px_b dst) s, px_a = scaled (px_a dst) s\<rparr>)\<rparr>"

text \<open>
  The \<open>onload\<close> callback of the mask image at \<open>index\<close>. Decoding a mask is the
  browser's work: for a decoder \<open>decode\<close>, \<open>decode m x y\<close> is the alpha at pixel
  \<open>(x, y)\<close> of the image that the base64 string \<open>m\<close> encodes, drawn over the canvas.
\<close>

type_synonym mask_decoder = "string \<Rightarrow> nat \<Rightarrow> nat \<Rightarrow> nat"

definition maskOnload :: "mask_decoder \<Rightarrow> nat \<Rightarrow> SegmentationMask \<Rightarrow> bitmap \<Rightarrow> bitmap" where
  "maskOnload decode index maskData hitCanvas =
     (if bm_width hitCanvas = 0 \<or> bm_height hitCanvas = 0 then hitCanvas
      else drawImage_destination_in (decode (sm_mask maskData))
             (fillRect_all (index + 1) hitCanvas))"

text \<open>
  The effect that builds the hit map. It clears the canvas when the image or the masks
  are missing; otherwise it gives the canvas the natural size of the displayed image,
  clears it, and starts loading the mask images. \<open>natural\<close> is \<open>(naturalWidth,
  naturalHeight)\<close> of the image element, \<open>None\<close> when there is no element. The mask
  images load in some order: \<open>loadOrder\<close> lists the indices of the masks in the order
  in which their \<open>onload\<close> callbacks run (an index outside the list never loads).
\<close>

definition masksLoaded ::
  "mask_decoder \<Rightarrow> SegmentationMask list \<Rightarrow> nat list \<Rightarrow> bitmap \<Rightarrow> bitmap" where
  "masksLoaded decode masks loadOrder hitCanvas =
     fold (\<lambda>index bm. if index < length masks then maskOnload decode index (masks ! index) bm
                       else bm)
          loadOrder hitCanvas"

definition buildHitMap ::
  "mask_decoder \<Rightarrow> (nat \<times> nat) option \<Rightarrow> SegmentationMask list option
     \<Rightarrow> nat list \<Rightarrow> bitmap \<Rightarrow> bitmap" where
  "buildHitMap decode natural segmentation loadOrder hitCanvas =
     (case (natural, segmentation) of
        (Some (naturalWidth, naturalHeight), Some masks) \<Rightarrow>
          if naturalWidth = 0 \<or> naturalHeight = 0 then clearRect_all hitCanvas
          else masksLoaded decode masks loadOrder
                 (clearRect_all (resized naturalWidth naturalHeight))
      | _ \<Rightarrow> clearRect_all hitCanvas)"

text \<open>
  \<open>getImageData(x, y, 1, 1)\<close>: the arguments are \<open>[EnforceRange] long\<close>, so a NaN, an
  infinity or a value outside the 32-bit range throws a \<open>TypeError\<close> (\<open>None\<close>); other
  values are truncated. The pixel comes back not premultiplied; a pixel outside the
  bitmap reads transparent black.
\<close>

datatype exn = TypeError

definition toLong :: "jsnum \<Rightarrow> int option" where
  "toLong v =
     (case v of
        Fin a \<Rightarrow>
          (let t = (if 0 \<le> a then \<lfloor>a\<rfloor> else \<lceil>a\<rceil>) in
           if - (2 ^ 31) \<le> t \<and> t \<le> 2 ^ 31 - 1 then Some t else None)
      | _ \<Rightarrow> None)"

definition getImageData :: "bitmap \<Rightarrow> jsnum \<Rightarrow> jsnum \<Rightarrow> rgba option" where
  "getImageData bm x y =
     (case (toLong x, toLong y) of
        (Some sx, Some sy) \<Rightarrow>
          if 0 \<le> sx \<and> sx < int (bm_width bm) \<and> 0 \<le> sy \<and> sy < int (bm_height bm)
          then Some (unpremultiplied (bm_pixel bm (nat sx) (nat sy)))
          else Some transparentBlack
      | _ \<Rightarrow> None)"

text \<open>
  \<open>getLabelFromHitMap\<close>: the label of the mask whose index the blue channel encodes
  (\<open>Inr None\<close>: no label; \<open>Inl TypeError\<close>: the pixel read threw). \<open>hitCanvas\<close> is \<open>None\<close>
  when the hidden canvas or its context is missing.
\<close>

definition getLabelFromHitMap ::
  "bitmap option \<Rightarrow> SegmentationMask list option \<Rightarrow> DropCoordinates \<Rightarrow> exn + string option" where
  "getLabelFromHitMap hitCanvas segmentation coords =
     (case (hitCanvas, segmentation) of
        (Some hit, Some masks) \<Rightarrow>
          (let x = Math_floor (jmul (dc_x coords) (Fin (real (bm_width hit))));
               y = Math_floor (jmul (dc_y coords) (Fin (real (bm_height hit))))
           in case getImageData hit x y of
                None \<Rightarrow> Inl TypeError
              | Some pixel \<Rightarrow>
                  (let index = int (px_b pixel) - 1
                   in if 0 \<le> index \<and> index < int (length masks)
                      then Inr (Some (sm_label (masks ! nat index))) else Inr None))
      | _ \<Rightarrow> Inr None)"

text \<open>
  What the claim describes: the hit map in which pixel \<open>(x, y)\<close> encodes \<open>index + 1\<close>
  for the last mask in list order that covers it with non-zero alpha, and 0 when no
  mask covers it.
\<close>

definition specEncoding :: "mask_decoder \<Rightarrow> SegmentationMask list \<Rightarrow> nat \<Rightarrow> nat \<Rightarrow> nat" where
  "specEncoding decode masks x y =
     (case filter (\<lambda>index. 0 < decode (sm_mask (masks ! index)) x y)
             (rev [0..<length masks]) of
        [] \<Rightarrow> 0
      | index # _ \<Rightarrow> index + 1)"


section \<open>The canvas component\<close>

text \<open>
  The local state of \<open>MainCanvas\<close>: its \<open>useState\<close> cells and refs. \<open>canvasRef\<close> is the
  container element (\<open>None\<close>: not attached), with its bounding rectangle and its client
  size; \<open>imageRef\<close> is the natural size of the image element; \<open>hitCanvas\<close> is the bitmap
  of the hidden canvas.
\<close>

record Container =
  boundingRect :: DOMRect
  clientWidth :: nat
  clientHeight :: nat

record Geom =
  geom_x :: jsnum
  geom_y :: jsnum
  geom_width :: jsnum
  geom_height :: jsnum

datatype marker_kind = EditKind | AssetKind

record canvas =
  canvasRef :: "Container option"
  imageRef :: "(nat \<times> nat) option"
  hitCanvas :: "bitmap option"
  isDraggingFile :: bool
  dropIndicator :: "DropCoordinates option"
  draggedMarker :: "(string \<times> marker_kind) option"
  isAssetDragOver :: bool
  renderedImageGeom :: Geom
  isPanning :: bool
  panStart :: "jsnum \<times> jsnum"
  mouseDownPos :: "real \<times> real"
  didDrag :: bool
  cursorPosition :: "real \<times> real"

definition initialGeom :: Geom where
  "initialGeom = \<lparr>geom_x = Fin 0, geom_y = Fin 0, geom_width = Fin 1, geom_height = Fin 1\<rparr>"

definition initialCanvas :: "Container option \<Rightarrow> canvas" where
  "initialCanvas container =
     \<lparr>canvasRef = container, imageRef = None, hitCanvas = None, isDraggingFile = False,
      dropIndicator = None, draggedMarker = None, isAssetDragOver = False,
      renderedImageGeom = initialGeom, isPanning = False, panStart = (Fin 0, Fin 0),
      mouseDownPos = (0, 0), didDrag = False, cursorPosition = (0, 0)\<rparr>"

text \<open>
  The events the handlers read: the client position of the pointer; for a mouse event,
  whether its target lies inside a marker (\<open>closest('.marker-container')\<close>); for a drag
  event, the types, the asset id and the files of its data transfer; for a wheel event,
  \<open>deltaY\<close>.
\<close>

record Pointer =
  clientX :: real
  clientY :: real

record MouseEvent = Pointer +
  targetInMarker :: bool

record DragEvent = Pointer +
  dt_types :: "string list"
  dt_assetId :: string
  dt_files :: "string list"

record WheelEvent = Pointer +
  deltaY :: real

text \<open>
  The props callbacks a handler invokes, in order. The \<open>App\<close> component binds them to
  its handlers and setters (\<open>deliver\<close> below).
\<close>

datatype callback =
    OnAddMarker DropCoordinates "string option"
  | OnUpdateMarker string PartialEditMarker
  | OnUpdateAssetMarker string PartialAssetMarker
  | OnAssetDrop string DropCoordinates "string option"
  | OnBaseImageSet string
  | OnHoverMask "string option"
  | OnSetZoom jsnum
  | OnSetCanvasOffset "jsnum \<times> jsnum"
  | OnSliderPositionChange jsnum
  | OnSliderDragEnd

subsection \<open>Geometry\<close>

text \<open>\<open>calculateGeom\<close>: the letterboxed rectangle of the image under contain fit.\<close>

definition calculateGeom :: "canvas \<Rightarrow> canvas" where
  "calculateGeom c =
     (case (imageRef c, canvasRef c) of
        (Some (imgW, imgH), Some container) \<Rightarrow>
          if imgW = 0 \<or> imgH = 0 then c
          else
            (let containerW = Fin (real (clientWidth container));
                 containerH = Fin (real (clientHeight container));
                 containerAspect = jdiv containerW containerH;
                 imgAspect = jdiv (Fin (real imgW)) (Fin (real imgH))
             in if jgt imgAspect containerAspect then
                  (let width = containerW;
                       height = jdiv width imgAspect;
                       y = jdiv (jsub containerH height) (Fin 2)
                   in c\<lparr>renderedImageGeom :=
                          \<lparr>geom_x = Fin 0, geom_y = y, geom_width = width,
                           geom_height = height\<rparr>\<rparr>)
                else
                  (let height = containerH;
                       width = jmul height imgAspect;
                       x = jdiv (jsub containerW width) (Fin 2)
                   in c\<lparr>renderedImageGeom :=
                          \<lparr>geom_x = x, geom_y = Fin 0, geom_width = width,
                           geom_height = height\<rparr>\<rparr>))
      | _ \<Rightarrow> c)"

text \<open>
  \<open>getRelativeCoords\<close>: the forward coordinate transform, from the client position of an
  event to the normalized image coordinate. It returns \<open>null\<close> (\<open>None\<close>) only when the
  container is not attached.
\<close>

definition getRelativeCoords :: "app \<Rightarrow> canvas \<Rightarrow> 'e Pointer_scheme \<Rightarrow> DropCoordinates option" where
  "getRelativeCoords a c e =
     (case canvasRef c of
        None \<Rightarrow> None
      | Some container \<Rightarrow>
          (let canvasRect = boundingRect container;
               geom = renderedImageGeom c;
               mouseX = Fin (clientX e - rect_left canvasRect);
               mouseY = Fin (clientY e - rect_top canvasRect);
               preTransformX = jdiv (jsub mouseX (fst (canvasOffset a))) (zoom a);
               preTransformY = jdiv (jsub mouseY (snd (canvasOffset a))) (zoom a);
               imageX = jsub preTransformX (geom_x geom);
               imageY = jsub preTransformY (geom_y geom)
           in if jlt imageX (Fin 0) \<or> jgt imageX (geom_width geom)
                 \<or> jlt imageY (Fin 0) \<or> jgt imageY (geom_height geom) then
                (let clampedX = Math_max (Fin 0) (Math_min imageX (geom_width geom));
                     clampedY = Math_max (Fin 0) (Math_min imageY (geom_height geom))
                 in Some \<lparr>dc_x = jdiv clampedX (geom_width geom),
                          dc_y = jdiv clampedY (geom_height geom)\<rparr>)
              else
                Some \<lparr>dc_x = jdiv imageX (geom_width geom),
                      dc_y = jdiv imageY (geom_height geom)\<rparr>))"

text \<open>
  The hit-map effect on the canvas state, for a given load order of the mask images.
\<close>

definition hitMapEffect :: "mask_decoder \<Rightarrow> nat list \<Rightarrow> app \<Rightarrow> canvas \<Rightarrow> canvas" where
  "hitMapEffect decode loadOrder a c =
     (case hitCanvas c of
        None \<Rightarrow> c
      | Some hit \<Rightarrow>
          c\<lparr>hitCanvas :=
               Some (buildHitMap decode (imageRef c) (segmentationData a) loadOrder hit)\<rparr>)"

text \<open>The label under a coordinate, as the handlers look it up.\<close>

definition labelAt :: "app \<Rightarrow> canvas \<Rightarrow> DropCoordinates \<Rightarrow> exn + string option" where
  "labelAt a c coords = getLabelFromHitMap (hitCanvas c) (segmentationData a) coords"


subsection \<open>Pointer and drag handlers\<close>

text \<open>
  Each handler reads the props of the current render (the application state \<open>a\<close>) and
  the local state \<open>c\<close>, and returns the new local state with the callbacks it invoked.
  A label lookup that throws ends the handler there: what the handler did before it
  stands, and nothing after it runs.
\<close>

definition handleMarkerDragStart :: "app \<Rightarrow> string \<Rightarrow> marker_kind \<Rightarrow> canvas \<Rightarrow> canvas" where
  "handleMarkerDragStart a ident kind c =
     (if \<not> isDisabled a then c\<lparr>draggedMarker := Some (ident, kind)\<rparr> else c)"

definition handleMouseDown :: "app \<Rightarrow> canvas \<Rightarrow> MouseEvent \<Rightarrow> canvas \<times> callback list" where
  "handleMouseDown a c e =
     (if isCompareMode a \<or> isDisabled a \<or> displayImage a = None \<or> targetInMarker e
      then (c, [])
      else
        (c\<lparr>didDrag := False, isPanning := True,
            mouseDownPos := (clientX e, clientY e),
            panStart := (jsub (Fin (clientX e)) (fst (canvasOffset a)),
                         jsub (Fin (clientY e)) (snd (canvasOffset a)))\<rparr>, []))"

text \<open>
  \<open>handleMouseMove\<close>. The part after the hover notification is \<open>mouseMoved\<close>, which
  receives the callbacks made so far.
\<close>

definition mouseMoved ::
  "app \<Rightarrow> canvas \<Rightarrow> MouseEvent \<Rightarrow> canvas \<Rightarrow> DropCoordinates option \<Rightarrow> callback list
     \<Rightarrow> canvas \<times> callback list" where
  "mouseMoved a c e c1 coords hover =
     (if isSliderDragging a \<and> coords \<noteq> None
      then (c1, hover @ [OnSliderPositionChange (dc_x (the coords))])
      else
        (let dx = \<bar>clientX e - fst (mouseDownPos c)\<bar>;
             dy = \<bar>clientY e - snd (mouseDownPos c)\<bar>;
             c2 = (if isPanning c \<and> \<not> didDrag c \<and> (5 < dx \<or> 5 < dy)
                   then c1\<lparr>didDrag := True\<rparr> else c1)
         in if isPanning c \<and> didDrag c2
            then (c2, hover @ [OnSetCanvasOffset
                                 (jsub (Fin (clientX e)) (fst (panStart c)),
                                  jsub (Fin (clientY e)) (snd (panStart c)))])
            else
              (case (draggedMarker c, coords) of
                 (Some (ident, EditKind), Some co) \<Rightarrow>
                   (c2, hover @ [OnUpdateMarker ident
                                   \<lparr>pem_id = None, pem_x = Some (dc_x co),
                                    pem_y = Some (dc_y co), pem_prompt = None,
                                    pem_targetObjectLabel = None\<rparr>])
               | (Some (ident, AssetKind), Some co) \<Rightarrow>
                   (c2, hover @ [OnUpdateAssetMarker ident
                                   \<lparr>pam_id = None, pam_assetId = None,
                                    pam_x = Some (dc_x co), pam_y = Some (dc_y co),
                                    pam_color = None, pam_prompt = None,
                                    pam_targetObjectLabel = None\<rparr>])
               | _ \<Rightarrow> (c2, hover))))"

definition handleMouseMove :: "app \<Rightarrow> canvas \<Rightarrow> MouseEvent \<Rightarrow> canvas \<times> callback list" where
  "handleMouseMove a c e =
     (let c1 = (case canvasRef c of
                  Some container \<Rightarrow>
                    c\<lparr>cursorPosition :=
                         (clientX e - rect_left (boundingRect container),
                          clientY e - rect_top (boundingRect container))\<rparr>
                | None \<Rightarrow> c);
          coords = getRelativeCoords a c e
      in if \<not> isPanning c \<and> draggedMarker c = None then
           (case coords of
              None \<Rightarrow> mouseMoved a c e c1 coords [OnHoverMask None]
            | Some co \<Rightarrow>
                (case labelAt a c co of
                   Inl thrown \<Rightarrow> (c1, [])
                 | Inr label \<Rightarrow> mouseMoved a c e c1 coords [OnHoverMask label]))
         else mouseMoved a c e c1 coords [])"

text \<open>
  \<open>handleMouseUp\<close> for a mouse-up event. (The mouse-leave listener calls it with
  \<open>null\<close>; that path is not modelled.)
\<close>

definition handleMouseUp :: "app \<Rightarrow> canvas \<Rightarrow> MouseEvent \<Rightarrow> canvas \<times> callback list" where
  "handleMouseUp a c e =
     (let sliderEnd = (if isSliderDragging a then [OnSliderDragEnd] else []);
          released = c\<lparr>didDrag := False, isPanning := False, draggedMarker := None\<rparr>
      in if isPanning c \<and> \<not> didDrag c \<and> \<not> targetInMarker e then
           (case getRelativeCoords a c e of
              None \<Rightarrow> (released, sliderEnd)
            | Some coords \<Rightarrow>
                (case labelAt a c coords of
                   Inl thrown \<Rightarrow> (c, sliderEnd)
                 | Inr label \<Rightarrow> (released, sliderEnd @ [OnAddMarker coords label])))
         else (released, sliderEnd))"

text \<open>
  \<open>handleWheel\<close>: zoom about the cursor. With the container detached the source
  dereferences \<open>null\<close> and throws before any setter runs, which leaves the state as it is.
\<close>

definition handleWheel :: "app \<Rightarrow> canvas \<Rightarrow> WheelEvent \<Rightarrow> canvas \<times> callback list" where
  "handleWheel a c e =
     (if isDisabled a \<or> displayImage a = None then (c, [])
      else
        (case canvasRef c of
           None \<Rightarrow> (c, [])
         | Some container \<Rightarrow>
             (let canvasRect = boundingRect container;
                  mouseX = Fin (clientX e - rect_left canvasRect);
                  mouseY = Fin (clientY e - rect_top canvasRect);
                  oldZoom = zoom a;
                  newZoom = (if 0 < deltaY e then Math_max (jdiv oldZoom ZOOM_STEP) MIN_ZOOM
                             else Math_min (jmul oldZoom ZOOM_STEP) MAX_ZOOM)
              in if jeq newZoom oldZoom then (c, [])
                 else
                   (let newOffsetX = jsub mouseX (jmul (jdiv newZoom oldZoom)
                                                       (jsub mouseX (fst (canvasOffset a))));
                        newOffsetY = jsub mouseY (jmul (jdiv newZoom oldZoom)
                                                       (jsub mouseY (snd (canvasOffset a))))
                    in (c, [OnSetZoom newZoom, OnSetCanvasOffset (newOffsetX, newOffsetY)])))))"

definition handleDragOver :: "app \<Rightarrow> canvas \<Rightarrow> DragEvent \<Rightarrow> canvas \<times> callback list" where
  "handleDragOver a c e =
     (if isDisabled a then (c, [])
      else
        (let coords = getRelativeCoords a c e;
             dragging = (\<lambda>hover.
               if ''application/x-asset-id'' \<in> set (dt_types e)
               then (c\<lparr>isAssetDragOver := True, dropIndicator := coords\<rparr>, hover)
               else if ''Files'' \<in> set (dt_types e)
               then (c\<lparr>isDraggingFile := True\<rparr>, hover)
               else (c, hover))
         in case coords of
              None \<Rightarrow> dragging []
            | Some co \<Rightarrow>
                (case labelAt a c co of
                   Inl thrown \<Rightarrow> (c, [])
                 | Inr label \<Rightarrow> dragging [OnHoverMask label])))"

definition handleDragLeave :: "canvas \<Rightarrow> canvas \<times> callback list" where
  "handleDragLeave c =
     (c\<lparr>isDraggingFile := False, dropIndicator := None, isAssetDragOver := False\<rparr>,
      [OnHoverMask None])"

definition handleDrop :: "app \<Rightarrow> canvas \<Rightarrow> DragEvent \<Rightarrow> canvas \<times> callback list" where
  "handleDrop a c e =
     (let coords = getRelativeCoords a c e;
          c1 = c\<lparr>isDraggingFile := False, dropIndicator := None, isAssetDragOver := False\<rparr>;
          dropped = (\<lambda>targetLabel.
            if isDisabled a then (c1, [OnHoverMask None])
            else if dt_assetId e \<noteq> [] \<and> displayImage a \<noteq> None \<and> coords \<noteq> None
            then (c1, [OnHoverMask None, OnAssetDrop (dt_assetId e) (the coords) targetLabel])
            else if 0 < length (dt_files e)
            then (c1, [OnHoverMask None, OnBaseImageSet (hd (dt_files e))])
            else (c1, [OnHoverMask None]))
      in case coords of
           None \<Rightarrow> dropped None
         | Some co \<Rightarrow>
             (case labelAt a c co of
                Inl thrown \<Rightarrow> (c, [])
              | Inr label \<Rightarrow> dropped label))"

subsection \<open>The canvas inside the application\<close>

text \<open>
  The \<open>App\<close> component binds the callbacks to its handlers. What a handler awaits or
  draws comes from the environment: the identifiers, the settled model calls, the file
  that was read and the scene description.
\<close>

record environment =
  env_uuid :: "nat \<Rightarrow> string"
  env_call :: model_calls
  env_fileRead :: "string + ImageFile"
  env_described :: "string + string"

fun bound :: "environment \<Rightarrow> callback \<Rightarrow> app_event" where
  "bound env (OnAddMarker coords label) = AddMarker (env_uuid env) coords label"
| "bound env (OnUpdateMarker ident newProps) = UpdateMarker ident newProps"
| "bound env (OnUpdateAssetMarker ident newProps) = UpdateAssetMarker ident newProps"
| "bound env (OnAssetDrop assetId coords label) =
     AssetDrop (env_uuid env) (env_call env) assetId coords label"
| "bound env (OnBaseImageSet file) = BaseImageSet (env_fileRead env) (env_described env)"
| "bound env (OnHoverMask label) = SetHoveredMaskLabel label"
| "bound env (OnSetZoom z) = SetZoom z"
| "bound env (OnSetCanvasOffset offset) = SetCanvasOffset offset"
| "bound env (OnSliderPositionChange position) = SliderPositionChange position"
| "bound env OnSliderDragEnd = SliderDragEnd"

definition deliver :: "environment \<Rightarrow> callback list \<Rightarrow> app \<Rightarrow> app" where
  "deliver env callbacks a = run (map (bound env) callbacks) a"

datatype canvas_event =
    MouseDown MouseEvent
  | MouseMove MouseEvent
  | MouseUp MouseEvent
  | Wheel WheelEvent
  | DragOver DragEvent
  | DragLeave
  | Drop DragEvent
  | MarkerDragStart string marker_kind

fun handle :: "app \<Rightarrow> canvas \<Rightarrow> canvas_event \<Rightarrow> canvas \<times> callback list" where
  "handle a c (MouseDown e) = handleMouseDown a c e"
| "handle a c (MouseMove e) = handleMouseMove a c e"
| "handle a c (MouseUp e) = handleMouseUp a c e"
| "handle a c (Wheel e) = handleWheel a c e"
| "handle a c (DragOver e) = handleDragOver a c e"
| "handle a c DragLeave = handleDragLeave c"
| "handle a c (Drop e) = handleDrop a c e"
| "handle a c (MarkerDragStart ident kind) = (handleMarkerDragStart a ident kind c, [])"

text \<open>
  One event: the handler runs on the current props and local state, and the callbacks
  it invoked reach the application before the next event. \<open>interact\<close> runs a sequence
  of events and returns the final states with all the callbacks invoked, in order.
\<close>

fun interact ::
  "environment \<Rightarrow> canvas_event list \<Rightarrow> app \<times> canvas \<Rightarrow> (app \<times> canvas) \<times> callback list" where
  "interact env [] (a, c) = ((a, c), [])"
| "interact env (ev # evs) (a, c) =
     (let (c1, callbacks) = handle a c ev;
          (final, later) = interact env evs (deliver env callbacks a, c1)
      in (final, callbacks @ later))"

fun isAddMarker :: "callback \<Rightarrow> bool" where
  "isAddMarker (OnAddMarker coords label) = True"
| "isAddMarker _ = False"

text \<open>
  The displacement of a move from the down-position \<open>p\<close> stays within 5 px on both
  axes; the offset with which a pan follows the pointer; the cursor position a move
  records.
\<close>

definition within5 :: "real \<times> real \<Rightarrow> MouseEvent \<Rightarrow> bool" where
  "within5 p e = (\<bar>clientX e - fst p\<bar> \<le> 5 \<and> \<bar>clientY e - snd p\<bar> \<le> 5)"

definition follow :: "canvas \<Rightarrow> MouseEvent \<Rightarrow> jsnum \<times> jsnum" where
  "follow c e =
     (jsub (Fin (clientX e)) (fst (panStart c)), jsub (Fin (clientY e)) (snd (panStart c)))"

definition cursorAt :: "canvas \<Rightarrow> MouseEvent \<Rightarrow> real \<times> real" where
  "cursorAt c e =
     (case canvasRef c of
        Some container \<Rightarrow> (clientX e - rect_left (boundingRect container),
                           clientY e - rect_top (boundingRect container))
      | None \<Rightarrow> cursorPosition c)"


section \<open>Concrete inputs\<close>

text \<open>
  A small workspace for the concrete instances below: a base image, one asset, two
  variations per request, and a viewport that is zoomed and panned. In \<open>allSucceed\<close>
  every call resolves with one result; in \<open>secondFails\<close> the second call rejects with the
  message of the retry helper while the others resolve.
\<close>

definition exampleBase :: ImageFile where
  "exampleBase = \<lparr>if_id = ''base'', if_dataUrl = ''data:image/png;base64,QkFTRQ==''\<rparr>"

definition exampleAsset :: ImageFile where
  "exampleAsset = \<lparr>if_id = ''asset'', if_dataUrl = ''data:image/png;base64,QVNTRVQ=''\<rparr>"

definition exampleResult :: GeneratedResult where
  "exampleResult = \<lparr>gr_id = ''r'', gr_image = ''data:image/png;base64,T1VU'', gr_text = []\<rparr>"

definition exampleUuid :: "nat \<Rightarrow> string" where
  "exampleUuid k = replicate (Suc k) (CHR ''u'')"

definition exampleCoords :: DropCoordinates where
  "exampleCoords = \<lparr>dc_x = Fin (1 / 2), dc_y = Fin (1 / 4)\<rparr>"

definition allSucceed :: model_calls where
  "allSucceed c k = (5 + k, Inr [exampleResult])"

definition secondFails :: model_calls where
  "secondFails c k =
     (if k = 1 then (9, Inl ''Failed after 3 attempts. Last error: overloaded'')
      else (5, Inr [exampleResult]))"

definition exampleWorkspace :: app where
  "exampleWorkspace =
     initialApp\<lparr>baseImage := Some exampleBase, insertImages := [exampleAsset],
                numVariations := 2, zoom := Fin 2, canvasOffset := (Fin 30, Fin (- 12))\<rparr>"

definition exampleWithResult :: app where
  "exampleWithResult =
     exampleWorkspace\<lparr>generatedResults := [exampleResult], activeResultId := Some ''r''\<rparr>"

definition exampleEditMarker :: "string \<Rightarrow> EditMarker" where
  "exampleEditMarker ident =
     \<lparr>em_id = ident, em_x = Fin (1 / 10), em_y = Fin (2 / 10), em_prompt = ''make it red'',
      em_targetObjectLabel = Some ''boat''\<rparr>"

definition exampleAssetMarker :: "string \<Rightarrow> AssetMarker" where
  "exampleAssetMarker ident =
     \<lparr>am_id = ident, am_assetId = ''asset'', am_x = Fin (1 / 10), am_y = Fin (2 / 10),
      am_color = ''#34D399'', am_prompt = Some [], am_targetObjectLabel = None\<rparr>"

definition exampleMarked :: app where
  "exampleMarked =
     exampleWorkspace\<lparr>markers := [exampleEditMarker ''a'', exampleEditMarker ''b''],
                      assetMarkers := [exampleAssetMarker ''c'', exampleAssetMarker ''d'']\<rparr>"

definition moveTo :: PartialEditMarker where
  "moveTo = \<lparr>pem_id = None, pem_x = Some (Fin (3 / 4)), pem_y = Some (Fin (1 / 4)),
             pem_prompt = None, pem_targetObjectLabel = None\<rparr>"

definition moveAssetTo :: PartialAssetMarker where
  "moveAssetTo = \<lparr>pam_id = None, pam_assetId = None, pam_x = Some (Fin (3 / 4)),
                  pam_y = Some (Fin (1 / 4)), pam_color = None, pam_prompt = None,
                  pam_targetObjectLabel = None\<rparr>"

definition renameTo :: "string \<Rightarrow> PartialEditMarker" where
  "renameTo ident = \<lparr>pem_id = Some ident, pem_x = None, pem_y = None, pem_prompt = None,
                     pem_targetObjectLabel = None\<rparr>"

text \<open>
  A run that uploads a base image and an asset, drops the asset, removes the marker the
  drop created, and drops the asset again.
\<close>

definition exampleRun :: "app_event list" where
  "exampleRun =
     [BaseImageSet (Inr exampleBase) (Inr ''a harbour''),
      InsertImageAdd (Inr [exampleAsset]),
      AssetDrop exampleUuid allSucceed ''asset'' exampleCoords None,
      RemoveAssetMarker ''uu'',
      AssetDrop exampleUuid allSucceed ''asset'' exampleCoords None]"


text \<open>
  A canvas whose container is 800 by 600 at client position (10, 20), showing a square
  image 400 by 400: the letterboxed rectangle is 600 by 600 at (100, 0). The same canvas
  in a container collapsed to width 0. Mouse events, an environment, and three gestures
  that start outside any marker: a click, a press released over a marker, and a drag.
\<close>

definition exampleContainer :: Container where
  "exampleContainer =
     \<lparr>boundingRect = \<lparr>rect_left = 10, rect_top = 20, rect_width = 800, rect_height = 600\<rparr>,
      clientWidth = 800, clientHeight = 600\<rparr>"

definition collapsedContainer :: Container where
  "collapsedContainer =
     \<lparr>boundingRect = \<lparr>rect_left = 10, rect_top = 20, rect_width = 0, rect_height = 600\<rparr>,
      clientWidth = 0, clientHeight = 600\<rparr>"

definition exampleCanvas :: canvas where
  "exampleCanvas = calculateGeom ((initialCanvas (Some exampleContainer))\<lparr>imageRef := Some (400, 400)\<rparr>)"

definition collapsedCanvas :: canvas where
  "collapsedCanvas =
     calculateGeom ((initialCanvas (Some collapsedContainer))\<lparr>imageRef := Some (400, 400)\<rparr>)"

definition mouseAt :: "real \<Rightarrow> real \<Rightarrow> bool \<Rightarrow> MouseEvent" where
  "mouseAt x y inMarker = \<lparr>clientX = x, clientY = y, targetInMarker = inMarker\<rparr>"

definition assetDragAt :: "real \<Rightarrow> real \<Rightarrow> DragEvent" where
  "assetDragAt x y =
     \<lparr>clientX = x, clientY = y, dt_types = [''application/x-asset-id''],
      dt_assetId = ''asset'', dt_files = []\<rparr>"

definition wheelIn :: WheelEvent where
  "wheelIn = \<lparr>clientX = 500, clientY = 300, deltaY = - 100\<rparr>"

definition exampleEnv :: environment where
  "exampleEnv = \<lparr>env_uuid = exampleUuid, env_call = allSucceed,
                  env_fileRead = Inr exampleAsset, env_described = Inr ''a quay''\<rparr>"

definition clickGesture :: "canvas_event list" where
  "clickGesture =
     MouseDown (mouseAt 400 300 False) # map MouseMove [mouseAt 403 302 False]
       @ [MouseUp (mouseAt 403 302 False)]"

definition releaseOverMarker :: "canvas_event list" where
  "releaseOverMarker =
     MouseDown (mouseAt 400 300 False) # map MouseMove [mouseAt 403 302 False]
       @ [MouseUp (mouseAt 403 302 True)]"

definition dragGesture :: "canvas_event list" where
  "dragGesture =
     MouseDown (mouseAt 400 300 False)
       # map MouseMove [mouseAt 450 300 False, mouseAt 500 350 False]
       @ [MouseUp (mouseAt 500 350 False)]"

text \<open>
  Two masks on an image 2 pixels wide and 1 pixel high: \<open>boat\<close> covers the left pixel
  only and \<open>pier\<close> the right pixel only. \<open>loadedHitMap\<close> is the hit canvas once both
  mask images have loaded, in list order.
\<close>

definition twoMasks :: "SegmentationMask list" where
  "twoMasks =
     [\<lparr>sm_label = ''boat'', sm_mask = ''L'', sm_color = ''rgba(52, 211, 153, 0.5)''\<rparr>,
      \<lparr>sm_label = ''pier'', sm_mask = ''R'', sm_color = ''rgba(96, 165, 250, 0.5)''\<rparr>]"

definition decodeHalves :: mask_decoder where
  "decodeHalves encoded x y =
     (if encoded = ''L'' \<and> x = 0 then 255 else if encoded = ''R'' \<and> x = 1 then 255 else 0)"

definition loadedHitMap :: bitmap where
  "loadedHitMap = buildHitMap decodeHalves (Some (2, 1)) (Some twoMasks) [0, 1] (resized 300 150)"


section \<open>Theorems\<close>

lemma callWithRetry_unfold:
  "callWithRetry fn =
     (case fn 0 of Inr v \<Rightarrow> \<lparr>outcome = Inr v, invocations = 1, delays = []\<rparr>
      | Inl m0 \<Rightarrow>
        (case fn 1 of Inr v \<Rightarrow> \<lparr>outcome = Inr v, invocations = 2, delays = [1000]\<rparr>
         | Inl m1 \<Rightarrow>
           (case fn 2 of Inr v \<Rightarrow> \<lparr>outcome = Inr v, invocations = 3, delays = [1000, 2000]\<rparr>
            | Inl m2 \<Rightarrow>
                \<lparr>outcome = Inl (failedAfter (Some m2)), invocations = 3,
                 delays = [1000, 2000]\<rparr>)))"
proof -
  have two: "(2::nat) = Suc (Suc 0)" by simp
  show ?thesis
    by (cases "fn 0"; cases "fn 1"; cases "fn (Suc (Suc 0))")
       (simp_all add: callWithRetry_def MAX_RETRIES_def two del: One_nat_def)
qed

text \<open>
  C7. The wrapped function is invoked at most 3 times. When its first two invocations
  throw and the third succeeds, the helper returns the third result after exactly 3
  invocations, having slept 1000 ms and then 2000 ms. When all three throw, the helper
  throws an error whose message carries the message of the last error, again after
  exactly 3 invocations.
\<close>

theorem callWithRetry_bounded_linear_backoff:
  "invocations (callWithRetry fn) \<le> 3
   \<and> (fn 0 = Inl m0 \<and> fn 1 = Inl m1 \<and> fn 2 = Inr v \<longrightarrow>
        callWithRetry fn = \<lparr>outcome = Inr v, invocations = 3, delays = [1000, 2000]\<rparr>)
   \<and> (fn 0 = Inl m0 \<and> fn 1 = Inl m1 \<and> fn 2 = Inl m2 \<longrightarrow>
        callWithRetry fn =
          \<lparr>outcome = Inl (''Failed after 3 attempts. Last error: '' @ lastErrorMessage (Some m2)),
           invocations = 3, delays = [1000, 2000]\<rparr>
        \<and> (m2 \<noteq> [] \<longrightarrow> lastErrorMessage (Some m2) = m2))"
  by (simp add: callWithRetry_unfold failedAfter_def lastErrorMessage_def split: sum.splits)

theorem callWithRetry_bounded_linear_backoff_witness:
  "callWithRetry (\<lambda>k. if k < 2 then Inl ''overloaded'' else Inr (7::nat))
     = \<lparr>outcome = Inr 7, invocations = 3, delays = [1000, 2000]\<rparr>
   \<and> callWithRetry (\<lambda>k. (Inl ''overloaded'' :: string + nat))
     = \<lparr>outcome = Inl ''Failed after 3 attempts. Last error: overloaded'',
        invocations = 3, delays = [1000, 2000]\<rparr>"
  using callWithRetry_bounded_linear_backoff
          [of "\<lambda>k. if k < 2 then Inl ''overloaded'' else Inr (7::nat)" "''overloaded''"
              "''overloaded''" 7 "''x''"]
        callWithRetry_bounded_linear_backoff
          [of "\<lambda>k. (Inl ''overloaded'' :: string + nat)" "''overloaded''" "''overloaded''"
              0 "''overloaded''"]
  by (simp add: lastErrorMessage_def)


subsection \<open>Marker updates\<close>

lemma map_update_no_match:
  "(\<forall>m \<in> set ms. key m \<noteq> ident) \<Longrightarrow> map (\<lambda>m. if key m = ident then f m else m) ms = ms"
  by (induction ms) auto

lemma handleUpdateMarker_frame:
  "length (markers (handleUpdateMarker ident newProps s)) = length (markers s)
   \<and> (handleUpdateMarker ident newProps s)\<lparr>markers := markers s\<rparr> = s
   \<and> (\<forall>i < length (markers s).
        (em_id (markers s ! i) \<noteq> ident \<longrightarrow>
           markers (handleUpdateMarker ident newProps s) ! i = markers s ! i)
      \<and> (em_id (markers s ! i) = ident \<longrightarrow>
           (case pem_id newProps of
              None \<Rightarrow> em_id (markers (handleUpdateMarker ident newProps s) ! i) = ident
            | Some v \<Rightarrow> em_id (markers (handleUpdateMarker ident newProps s) ! i) = v)
         \<and> (case pem_x newProps of
              None \<Rightarrow> em_x (markers (handleUpdateMarker ident newProps s) ! i)
                       = em_x (markers s ! i)
            | Some v \<Rightarrow> em_x (markers (handleUpdateMarker ident newProps s) ! i) = v)
         \<and> (case pem_y newProps of
              None \<Rightarrow> em_y (markers (handleUpdateMarker ident newProps s) ! i)
                       = em_y (markers s ! i)
            | Some v \<Rightarrow> em_y (markers (handleUpdateMarker ident newProps s) ! i) = v)
         \<and> (case pem_prompt newProps of
              None \<Rightarrow> em_prompt (markers (handleUpdateMarker ident newProps s) ! i)
                       = em_prompt (markers s ! i)
            | Some v \<Rightarrow> em_prompt (markers (handleUpdateMarker ident newProps s) ! i) = v)
         \<and> (case pem_targetObjectLabel newProps of
              None \<Rightarrow> em_targetObjectLabel (markers (handleUpdateMarker ident newProps s) ! i)
                       = em_targetObjectLabel (markers s ! i)
            | Some v \<Rightarrow>
                em_targetObjectLabel (markers (handleUpdateMarker ident newProps s) ! i) = v)))
   \<and> ((\<forall>m \<in> set (markers s). em_id m \<noteq> ident) \<longrightarrow>
        handleUpdateMarker ident newProps s = s)"
  by (auto simp: handleUpdateMarker_def spreadEditMarker_def spread_def map_update_no_match
           split: option.splits)

lemma handleUpdateAssetMarker_frame:
  "length (assetMarkers (handleUpdateAssetMarker ident newProps s)) = length (assetMarkers s)
   \<and> (handleUpdateAssetMarker ident newProps s)\<lparr>assetMarkers := assetMarkers s\<rparr> = s
   \<and> (\<forall>i < length (assetMarkers s).
        (am_id (assetMarkers s ! i) \<noteq> ident \<longrightarrow>
           assetMarkers (handleUpdateAssetMarker ident newProps s) ! i = assetMarkers s ! i)
      \<and> (am_id (assetMarkers s ! i) = ident \<longrightarrow>
           (case pam_id newProps of
              None \<Rightarrow> am_id (assetMarkers (handleUpdateAssetMarker ident newProps s) ! i) = ident
            | Some v \<Rightarrow> am_id (assetMarkers (handleUpdateAssetMarker ident newProps s) ! i) = v)
         \<and> (case pam_assetId newProps of
              None \<Rightarrow> am_assetId (assetMarkers (handleUpdateAssetMarker ident newProps s) ! i)
                       = am_assetId (assetMarkers s ! i)
            | Some v \<Rightarrow>
                am_assetId (assetMarkers (handleUpdateAssetMarker ident newProps s) ! i) = v)
         \<and> (case pam_x newProps of
              None \<Rightarrow> am_x (assetMarkers (handleUpdateAssetMarker ident newProps s) ! i)
                       = am_x (assetMarkers s ! i)
            | Some v \<Rightarrow> am_x (assetMarkers (handleUpdateAssetMarker ident newProps s) ! i) = v)
         \<and> (case pam_y newProps of
              None \<Rightarrow> am_y (assetMarkers (handleUpdateAssetMarker ident newProps s) ! i)
                       = am_y (assetMarkers s ! i)
            | Some v \<Rightarrow> am_y (assetMarkers (handleUpdateAssetMarker ident newProps s) ! i) = v)
         \<and> (case pam_color newProps of
              None \<Rightarrow> am_color (assetMarkers (handleUpdateAssetMarker ident newProps s) ! i)
                       = am_color (assetMarkers s ! i)
            | Some v \<Rightarrow>
                am_color (assetMarkers (handleUpdateAssetMarker ident newProps s) ! i) = v)
         \<and> (case pam_prompt newProps of
              None \<Rightarrow> am_prompt (assetMarkers (handleUpdateAssetMarker ident newProps s) ! i)
                       = am_prompt (assetMarkers s ! i)
            | Some v \<Rightarrow>
                am_prompt (assetMarkers (handleUpdateAssetMarker ident newProps s) ! i) = v)
         \<and> (case pam_targetObjectLabel newProps of
              None \<Rightarrow>
                am_targetObjectLabel (assetMarkers (handleUpdateAssetMarker ident newProps s) ! i)
                  = am_targetObjectLabel (assetMarkers s ! i)
            | Some v \<Rightarrow>
                am_targetObjectLabel (assetMarkers (handleUpdateAssetMarker ident newProps s) ! i)
                  = v)))
   \<and> ((\<forall>m \<in> set (assetMarkers s). am_id m \<noteq> ident) \<longrightarrow>
        handleUpdateAssetMarker ident newProps s = s)"
  by (auto simp: handleUpdateAssetMarker_def spreadAssetMarker_def spread_def
           map_update_no_match split: option.splits)

text \<open>
  C10, as the code has it. An update by id keeps the length of the list and touches no
  other part of the state. A marker whose id differs is unchanged. On a marker whose
  id matches, every field present in the partial record takes the record's value and
  every absent field keeps its value; the id is a field like the others, so it is
  preserved when the record carries no id and replaced when it carries one. When no
  marker has the id, the state is unchanged. The same holds for asset markers.
\<close>

theorem marker_update_frame:
  "(length (markers (handleUpdateMarker ident newProps s)) = length (markers s)
    \<and> (handleUpdateMarker ident newProps s)\<lparr>markers := markers s\<rparr> = s
    \<and> (\<forall>i < length (markers s).
         (em_id (markers s ! i) \<noteq> ident \<longrightarrow>
            markers (handleUpdateMarker ident newProps s) ! i = markers s ! i)
       \<and> (em_id (markers s ! i) = ident \<longrightarrow>
            (case pem_id newProps of
               None \<Rightarrow> em_id (markers (handleUpdateMarker ident newProps s) ! i) = ident
             | Some v \<Rightarrow> em_id (markers (handleUpdateMarker ident newProps s) ! i) = v)
          \<and> (case pem_x newProps of
               None \<Rightarrow> em_x (markers (handleUpdateMarker ident newProps s) ! i)
                        = em_x (markers s ! i)
             | Some v \<Rightarrow> em_x (markers (handleUpdateMarker ident newProps s) ! i) = v)
          \<and> (case pem_y newProps of
               None \<Rightarrow> em_y (markers (handleUpdateMarker ident newProps s) ! i)
                        = em_y (markers s ! i)
             | Some v \<Rightarrow> em_y (markers (handleUpdateMarker ident newProps s) ! i) = v)
          \<and> (case pem_prompt newProps of
               None \<Rightarrow> em_prompt (markers (handleUpdateMarker ident newProps s) ! i)
                        = em_prompt (markers s ! i)
             | Some v \<Rightarrow> em_prompt (markers (handleUpdateMarker ident newProps s) ! i) = v)
          \<and> (case pem_targetObjectLabel newProps of
               None \<Rightarrow> em_targetObjectLabel (markers (handleUpdateMarker ident newProps s) ! i)
                        = em_targetObjectLabel (markers s ! i)
             | Some v \<Rightarrow>
                 em_targetObjectLabel (markers (handleUpdateMarker ident newProps s) ! i) = v)))
    \<and> ((\<forall>m \<in> set (markers s). em_id m \<noteq> ident) \<longrightarrow>
         handleUpdateMarker ident newProps s = s))
   \<and> (length (assetMarkers (handleUpdateAssetMarker ident assetProps s))
         = length (assetMarkers s)
    \<and> (handleUpdateAssetMarker ident assetProps s)\<lparr>assetMarkers := assetMarkers s\<rparr> = s
    \<and> (\<forall>i < length (assetMarkers s).
         (am_id (assetMarkers s ! i) \<noteq> ident \<longrightarrow>
            assetMarkers (handleUpdateAssetMarker ident assetProps s) ! i = assetMarkers s ! i)
       \<and> (am_id (assetMarkers s ! i) = ident \<longrightarrow>
            (case pam_id assetProps of
               None \<Rightarrow>
                 am_id (assetMarkers (handleUpdateAssetMarker ident assetProps s) ! i) = ident
             | Some v \<Rightarrow>
                 am_id (assetMarkers (handleUpdateAssetMarker ident assetProps s) ! i) = v)
          \<and> (case pam_assetId assetProps of
               None \<Rightarrow> am_assetId (assetMarkers (handleUpdateAssetMarker ident assetProps s) ! i)
                        = am_assetId (assetMarkers s ! i)
             | Some v \<Rightarrow>
                 am_assetId (assetMarkers (handleUpdateAssetMarker ident assetProps s) ! i) = v)
          \<and> (case pam_x assetProps of
               None \<Rightarrow> am_x (assetMarkers (handleUpdateAssetMarker ident assetProps s) ! i)
                        = am_x (assetMarkers s ! i)
             | Some v \<Rightarrow> am_x (assetMarkers (handleUpdateAssetMarker ident assetProps s) ! i) = v)
          \<and> (case pam_y assetProps of
               None \<Rightarrow> am_y (assetMarkers (handleUpdateAssetMarker ident assetProps s) ! i)
                        = am_y (assetMarkers s ! i)
             | Some v \<Rightarrow> am_y (assetMarkers (handleUpdateAssetMarker ident assetProps s) ! i) = v)
          \<and> (case pam_color assetProps of
               None \<Rightarrow> am_color (assetMarkers (handleUpdateAssetMarker ident assetProps s) ! i)
                        = am_color (assetMarkers s ! i)
             | Some v \<Rightarrow>
                 am_color (assetMarkers (handleUpdateAssetMarker ident assetProps s) ! i) = v)
          \<and> (case pam_prompt assetProps of
               None \<Rightarrow> am_prompt (assetMarkers (handleUpdateAssetMarker ident assetProps s) ! i)
                        = am_prompt (assetMarkers s ! i)
             | Some v \<Rightarrow>
                 am_prompt (assetMarkers (handleUpdateAssetMarker ident assetProps s) ! i) = v)
          \<and> (case pam_targetObjectLabel assetProps of
               None \<Rightarrow>
                 am_targetObjectLabel
                   (assetMarkers (handleUpdateAssetMarker ident assetProps s) ! i)
                   = am_targetObjectLabel (assetMarkers s ! i)
             | Some v \<Rightarrow>
                 am_targetObjectLabel
                   (assetMarkers (handleUpdateAssetMarker ident assetProps s) ! i) = v)))
    \<and> ((\<forall>m \<in> set (assetMarkers s). am_id m \<noteq> ident) \<longrightarrow>
         handleUpdateAssetMarker ident assetProps s = s))"
  using handleUpdateMarker_frame [of ident newProps s]
        handleUpdateAssetMarker_frame [of ident assetProps s]
  by blast

text \<open>
  At a workspace with edit markers \<open>a\<close>, \<open>b\<close> and asset markers \<open>c\<close>, \<open>d\<close>: moving \<open>a\<close>
  changes its coordinates and keeps its id, prompt and label, \<open>b\<close> is untouched, and
  an update for an id no marker has changes nothing.
\<close>

theorem marker_update_frame_witness:
  "markers (handleUpdateMarker ''a'' moveTo exampleMarked) ! 1 = exampleEditMarker ''b''
   \<and> em_id (markers (handleUpdateMarker ''a'' moveTo exampleMarked) ! 0) = ''a''
   \<and> em_x (markers (handleUpdateMarker ''a'' moveTo exampleMarked) ! 0) = Fin (3 / 4)
   \<and> em_prompt (markers (handleUpdateMarker ''a'' moveTo exampleMarked) ! 0) = ''make it red''
   \<and> handleUpdateMarker ''z'' moveTo exampleMarked = exampleMarked
   \<and> am_y (assetMarkers (handleUpdateAssetMarker ''d'' moveAssetTo exampleMarked) ! 1)
       = Fin (1 / 4)
   \<and> assetMarkers (handleUpdateAssetMarker ''d'' moveAssetTo exampleMarked) ! 0
       = exampleAssetMarker ''c''"
  using marker_update_frame [of "''a''" moveTo exampleMarked moveAssetTo]
        marker_update_frame [of "''z''" moveTo exampleMarked moveAssetTo]
        marker_update_frame [of "''d''" moveTo exampleMarked moveAssetTo]
  by (simp add: exampleMarked_def exampleWorkspace_def initialApp_def exampleEditMarker_def
        exampleAssetMarker_def moveTo_def moveAssetTo_def handleUpdateMarker_def
        handleUpdateAssetMarker_def spreadEditMarker_def spreadAssetMarker_def spread_def)

text \<open>
  The claim as stated says that the id of the updated marker is always preserved. A
  partial record may carry an id, and then the spread replaces it: updating marker \<open>a\<close>
  with a record whose id is \<open>z\<close> leaves no marker with id \<open>a\<close>.
\<close>

theorem marker_update_id_counterexample:
  "em_id (markers exampleMarked ! 0) = ''a''
   \<and> em_id (markers (handleUpdateMarker ''a'' (renameTo ''z'') exampleMarked) ! 0) = ''z''
   \<and> em_id (markers (handleUpdateMarker ''a'' (renameTo ''z'') exampleMarked) ! 0) \<noteq> ''a''"
  by (simp add: exampleMarked_def exampleWorkspace_def initialApp_def exampleEditMarker_def
        renameTo_def handleUpdateMarker_def spreadEditMarker_def spread_def)


subsection \<open>The viewport and the base image\<close>

text \<open>
  C9, as the code has it. A new upload resets the viewport to zoom 1 and offset (0, 0),
  whatever the file reader and the scene description return. Saving the selected result
  as the new base image, and undo, leave zoom and offset as they were.
\<close>

theorem viewport_reset_on_upload_only:
  "zoom (handleBaseImageSet fileRead described s) = Fin 1
   \<and> canvasOffset (handleBaseImageSet fileRead described s) = (Fin 0, Fin 0)
   \<and> zoom (handleSaveChanges uuid s) = zoom s
   \<and> canvasOffset (handleSaveChanges uuid s) = canvasOffset s
   \<and> zoom (handleUndo s) = zoom s
   \<and> canvasOffset (handleUndo s) = canvasOffset s"
  by (simp add: handleBaseImageSet_def handleSaveChanges_def handleUndo_def
        handleResetZoom_def saveStateToHistory_def Let_def split: sum.splits option.splits)

theorem viewport_reset_on_upload_only_witness:
  "zoom exampleWithResult = Fin 2
   \<and> zoom (handleBaseImageSet (Inr exampleAsset) (Inr ''a quay'') exampleWithResult) = Fin 1
   \<and> canvasOffset (handleBaseImageSet (Inr exampleAsset) (Inr ''a quay'') exampleWithResult)
       = (Fin 0, Fin 0)
   \<and> zoom (handleUndo exampleWithResult) = Fin 2"
  using viewport_reset_on_upload_only
          [of "Inr exampleAsset" "Inr ''a quay''" exampleWithResult exampleUuid]
  by (simp add: exampleWithResult_def exampleWorkspace_def initialApp_def)

text \<open>
  The claim as stated fails for a save: with the viewport at zoom 2 and offset (30, -12),
  saving the selected result replaces the base image and the viewport stays where it was.
\<close>

theorem viewport_kept_on_save_counterexample:
  "baseImage exampleWithResult = Some exampleBase
   \<and> baseImage (handleSaveChanges exampleUuid exampleWithResult)
       = Some \<lparr>if_id = ''u'', if_dataUrl = ''data:image/png;base64,T1VU''\<rparr>
   \<and> zoom (handleSaveChanges exampleUuid exampleWithResult) = Fin 2
   \<and> zoom (handleSaveChanges exampleUuid exampleWithResult) \<noteq> Fin 1
   \<and> canvasOffset (handleSaveChanges exampleUuid exampleWithResult) = (Fin 30, Fin (- 12))"
  by (simp add: exampleWithResult_def exampleWorkspace_def initialApp_def exampleResult_def
        exampleUuid_def handleSaveChanges_def saveStateToHistory_def)

subsection \<open>Generation requests: all or nothing\<close>

lemma earliest_mem: "earliest p ps \<in> set (p # ps)"
proof -
  have "fold (\<lambda>q best. if fst q < fst best then q else best) ps p \<in> insert p (set ps)" for p
    by (induction ps arbitrary: p) auto
  then show ?thesis by (simp add: earliest_def)
qed

lemma Promise_all_fulfilled:
  "allFulfilled ps \<Longrightarrow> Promise_all ps = Inr (fulfilledValues ps)"
  by (simp add: Promise_all_def allFulfilled_def fulfilledValues_def list_all_iff
        filter_empty_conv split: list.splits)

lemma Promise_all_rejected:
  assumes "\<not> allFulfilled ps"
  shows "\<exists>t m. (t, Inl m) \<in> set ps \<and> Promise_all ps = Inl m"
proof -
  from assms obtain r rs where f: "filter (\<lambda>p. isl (snd p)) ps = r # rs"
    by (cases "filter (\<lambda>p. isl (snd p)) ps")
       (auto simp: allFulfilled_def list_all_iff filter_empty_conv)
  have "earliest r rs \<in> set (filter (\<lambda>p. isl (snd p)) ps)"
    using earliest_mem [of r rs] f by simp
  then have mem: "earliest r rs \<in> set ps" and l: "isl (snd (earliest r rs))" by auto
  obtain t v where e: "earliest r rs = (t, v)" by (cases "earliest r rs")
  with l obtain m where "v = Inl m" by (cases v) auto
  with e mem f show ?thesis by (auto simp: Promise_all_def)
qed

lemma length_withFreshIds: "length (withFreshIds uuid rs) = length rs"
  by (simp add: withFreshIds_def)

lemma withFreshIds_Nil_iff: "withFreshIds uuid rs = [] \<longleftrightarrow> rs = []"
  using length_withFreshIds [of uuid rs] by (metis length_0_conv)

lemma asset_all_fulfilled:
  assumes "baseImage s = Some base"
      and "find (\<lambda>img. if_id img = assetId) (insertImages s) = Some asset"
      and "allFulfilled (map (call EditImage) [0..<numVariations s])"
      and "concat (fulfilledValues (map (call EditImage) [0..<numVariations s])) \<noteq> []"
  shows "error (handleAssetGeneration uuid call assetId coords label regen s) = None
       \<and> generatedResults (handleAssetGeneration uuid call assetId coords label regen s)
           = withFreshIds uuid
               (concat (fulfilledValues (map (call EditImage) [0..<numVariations s])))"
  using assms
  by (simp add: handleAssetGeneration_def Promise_all_fulfilled Let_def startLoading_def
        getNextColor_def saveStateToHistory_def withFreshIds_Nil_iff split: prod.splits)

lemma asset_some_rejected:
  assumes "baseImage s = Some base"
      and "find (\<lambda>img. if_id img = assetId) (insertImages s) = Some asset"
      and "\<not> allFulfilled (map (call EditImage) [0..<numVariations s])"
  shows "error (handleAssetGeneration uuid call assetId coords label regen s) \<noteq> None
       \<and> generatedResults (handleAssetGeneration uuid call assetId coords label regen s) = []"
proof -
  from Promise_all_rejected [OF assms(3)] obtain m
    where "Promise_all (map (call EditImage) [0..<numVariations s]) = Inl m" by blast
  with assms(1,2) show ?thesis
    by (simp add: handleAssetGeneration_def Let_def startLoading_def)
qed

lemma scene_promises:
  "(if baseImage s \<noteq> None \<and> 0 < length (insertImages s)
    then map (call SceneWithMultipleAssets) [0..<numVariations s]
    else if baseImage s \<noteq> None \<and> \<not> 0 < length (insertImages s)
    then map (call EditText) [0..<numVariations s]
    else map (call SceneFromAssets) [0..<numVariations s])
   = map (call (sceneCollaborator s)) [0..<numVariations s]"
  by (simp add: sceneCollaborator_def)

lemma scene_all_fulfilled:
  assumes "baseImage s \<noteq> None \<or> insertImages s \<noteq> []"
      and "allFulfilled (map (call (sceneCollaborator s)) [0..<numVariations s])"
      and "concat (fulfilledValues (map (call (sceneCollaborator s)) [0..<numVariations s])) \<noteq> []"
  shows "error (handleSceneGeneration uuid call s) = None
       \<and> generatedResults (handleSceneGeneration uuid call s)
           = withFreshIds uuid
               (concat (fulfilledValues (map (call (sceneCollaborator s)) [0..<numVariations s])))"
  using assms unfolding handleSceneGeneration_def Let_def scene_promises
  by (auto simp: Promise_all_fulfilled startLoading_def saveStateToHistory_def
        withFreshIds_Nil_iff)

lemma scene_some_rejected:
  assumes "baseImage s \<noteq> None \<or> insertImages s \<noteq> []"
      and "\<not> allFulfilled (map (call (sceneCollaborator s)) [0..<numVariations s])"
  shows "error (handleSceneGeneration uuid call s) \<noteq> None
       \<and> generatedResults (handleSceneGeneration uuid call s) = []"
proof -
  from Promise_all_rejected [OF assms(2)] obtain m
    where "Promise_all (map (call (sceneCollaborator s)) [0..<numVariations s]) = Inl m" by blast
  with assms(1) show ?thesis
    unfolding handleSceneGeneration_def Let_def scene_promises
    by (auto simp: startLoading_def saveStateToHistory_def)
qed

text \<open>
  C2, as the code has it. A generation request awaits \<open>Promise.all\<close> of its calls. When
  every call succeeds (and they return at least one result), all the variations are
  kept as the generated results, with fresh ids, and no error is surfaced. When a call
  fails after its retries, an error is surfaced and no variation is kept, whatever the
  other calls returned. This holds for the asset generation (with a base image and the
  asset present) and for the scene generation (with a base image or an asset present).
\<close>

theorem generation_all_or_nothing:
  "(baseImage s = Some base \<and> find (\<lambda>img. if_id img = assetId) (insertImages s) = Some asset
      \<longrightarrow>
      (allFulfilled (map (call EditImage) [0..<numVariations s])
         \<and> concat (fulfilledValues (map (call EditImage) [0..<numVariations s])) \<noteq> []
       \<longrightarrow> error (handleAssetGeneration uuid call assetId coords label regen s) = None
         \<and> generatedResults (handleAssetGeneration uuid call assetId coords label regen s)
             = withFreshIds uuid
                 (concat (fulfilledValues (map (call EditImage) [0..<numVariations s]))))
    \<and> (\<not> allFulfilled (map (call EditImage) [0..<numVariations s])
       \<longrightarrow> error (handleAssetGeneration uuid call assetId coords label regen s) \<noteq> None
         \<and> generatedResults (handleAssetGeneration uuid call assetId coords label regen s)
             = []))
   \<and> (baseImage s \<noteq> None \<or> insertImages s \<noteq> []
      \<longrightarrow>
      (allFulfilled (map (call (sceneCollaborator s)) [0..<numVariations s])
         \<and> concat (fulfilledValues (map (call (sceneCollaborator s)) [0..<numVariations s]))
             \<noteq> []
       \<longrightarrow> error (handleSceneGeneration uuid call s) = None
         \<and> generatedResults (handleSceneGeneration uuid call s)
             = withFreshIds uuid
                 (concat (fulfilledValues
                    (map (call (sceneCollaborator s)) [0..<numVariations s]))))
    \<and> (\<not> allFulfilled (map (call (sceneCollaborator s)) [0..<numVariations s])
       \<longrightarrow> error (handleSceneGeneration uuid call s) \<noteq> None
         \<and> generatedResults (handleSceneGeneration uuid call s) = []))"
  using asset_all_fulfilled [of s base assetId asset call uuid coords label regen]
        asset_some_rejected [of s base assetId asset call uuid coords label regen]
        scene_all_fulfilled [of s call uuid]
        scene_some_rejected [of s call uuid]
  by blast

text \<open>
  Two variations that both succeed are both kept, for the asset drop and for the scene.
\<close>

theorem generation_all_or_nothing_witness:
  "error (handleAssetGeneration exampleUuid allSucceed ''asset'' exampleCoords None False
            exampleWorkspace) = None
   \<and> generatedResults (handleAssetGeneration exampleUuid allSucceed ''asset'' exampleCoords
                          None False exampleWorkspace)
       = [exampleResult\<lparr>gr_id := ''u''\<rparr>, exampleResult\<lparr>gr_id := ''uu''\<rparr>]
   \<and> generatedResults (handleSceneGeneration exampleUuid allSucceed exampleWorkspace)
       = [exampleResult\<lparr>gr_id := ''u''\<rparr>, exampleResult\<lparr>gr_id := ''uu''\<rparr>]
   \<and> error (handleSceneGeneration exampleUuid secondFails exampleWorkspace) \<noteq> None"
proof -
  have two: "[0..<2] = [0, Suc 0]" by (simp add: upt_rec)
  have base: "baseImage exampleWorkspace = Some exampleBase"
    and asset: "find (\<lambda>img. if_id img = ''asset'') (insertImages exampleWorkspace)
                  = Some exampleAsset"
    and n: "numVariations exampleWorkspace = 2"
    and c: "sceneCollaborator exampleWorkspace = SceneWithMultipleAssets"
    by (simp_all add: exampleWorkspace_def initialApp_def exampleAsset_def
          sceneCollaborator_def)
  show ?thesis
    using generation_all_or_nothing
            [of exampleWorkspace exampleBase "''asset''" exampleAsset allSucceed exampleUuid
                exampleCoords None False]
          generation_all_or_nothing
            [of exampleWorkspace exampleBase "''asset''" exampleAsset secondFails exampleUuid
                exampleCoords None False]
    by (simp add: base asset n c two allFulfilled_def fulfilledValues_def allSucceed_def
          secondFails_def withFreshIds_def exampleUuid_def)
qed

text \<open>
  The claim as stated fails when one call succeeds and another fails: of two
  variations, the first resolves with a result and the second rejects; the handler
  surfaces the error of the second and keeps no result.
\<close>

theorem generation_partial_success_counterexample:
  "numVariations exampleWorkspace = 2
   \<and> snd (secondFails EditImage 0) = Inr [exampleResult]
   \<and> snd (secondFails EditImage 1) = Inl ''Failed after 3 attempts. Last error: overloaded''
   \<and> error (handleAssetGeneration exampleUuid secondFails ''asset'' exampleCoords None False
              exampleWorkspace)
       = Some ''Failed after 3 attempts. Last error: overloaded''
   \<and> generatedResults (handleAssetGeneration exampleUuid secondFails ''asset'' exampleCoords
                          None False exampleWorkspace) = []"
  by (simp add: handleAssetGeneration_def startLoading_def Promise_all_def earliest_def
        messageOr_def exampleWorkspace_def initialApp_def exampleBase_def exampleAsset_def
        secondFails_def Let_def upt_rec)

subsection \<open>Round-robin colours\<close>

lemma handleAssetGeneration_regen_color:
  "lastColorIndex (handleAssetGeneration uuid call assetId coords label True s) = lastColorIndex s"
  by (simp add: handleAssetGeneration_def Let_def startLoading_def
        split: option.splits sum.splits prod.splits)

text \<open>
  An asset drop either leaves markers and index alone, or appends one marker with the
  palette colour at the index and advances the index.
\<close>

lemma handleAssetGeneration_drop_cases:
  "(assetMarkers (handleAssetGeneration uuid call assetId coords label False s) = assetMarkers s
      \<and> lastColorIndex (handleAssetGeneration uuid call assetId coords label False s)
          = lastColorIndex s)
   \<or> (\<exists>m. assetMarkers (handleAssetGeneration uuid call assetId coords label False s)
             = assetMarkers s @ [m]
          \<and> am_color m = MARKER_COLORS ! lastColorIndex s
          \<and> lastColorIndex (handleAssetGeneration uuid call assetId coords label False s)
              = (lastColorIndex s + 1) mod 6)"
  by (simp add: handleAssetGeneration_def Let_def startLoading_def getNextColor_def
        saveStateToHistory_def MARKER_COLORS_def
        split: option.splits sum.splits prod.splits)

lemma step_lastColorIndex:
  "lastColorIndex (step e s) = (lastColorIndex s + length (createdAssetMarker e s)) mod 6
     \<or> (lastColorIndex (step e s) = lastColorIndex s \<and> createdAssetMarker e s = [])"
proof (cases e)
  case (AssetDrop uuid call assetId coords label)
  then show ?thesis
    using handleAssetGeneration_drop_cases [of uuid call assetId coords label s]
    by (auto simp: createdAssetMarker_def)
next
  case (AssetRegeneration uuid call markerId)
  then show ?thesis
    by (simp add: createdAssetMarker_def handleAssetRegeneration_def
          handleAssetGeneration_regen_color split: option.splits)
qed (simp_all add: createdAssetMarker_def handleBaseImageSet_def handleInsertImageAdd_def
       handleClearInsertImages_def handleMarkerGeneration_def handleSceneGeneration_def
       handleSaveChanges_def handleUndo_def handleAddMarker_def handleUpdateMarker_def
       handleRemoveMarker_def handleUpdateAssetMarker_def handleRemoveAssetMarker_def
       handleZoomIn_def handleZoomOut_def handleResetZoom_def saveStateToHistory_def
       handleSliderPositionChange_def handleSliderDragStart_def handleSliderDragEnd_def
       startLoading_def Let_def split: option.splits sum.splits)

lemma step_created_color:
  "m \<in> set (createdAssetMarker e s) \<Longrightarrow> am_color m = MARKER_COLORS ! lastColorIndex s"
proof (cases e)
  case (AssetDrop uuid call assetId coords label)
  assume "m \<in> set (createdAssetMarker e s)"
  with AssetDrop show ?thesis
    using handleAssetGeneration_drop_cases [of uuid call assetId coords label s]
    by (auto simp: createdAssetMarker_def)
qed (simp_all add: createdAssetMarker_def)

lemma step_created_length: "length (createdAssetMarker e s) \<le> 1"
proof (cases e)
  case (AssetDrop uuid call assetId coords label)
  then show ?thesis
    using handleAssetGeneration_drop_cases [of uuid call assetId coords label s]
    by (auto simp: createdAssetMarker_def)
qed (simp_all add: createdAssetMarker_def)

lemma step_lastColorIndex_mod:
  assumes "lastColorIndex s < 6"
  shows "lastColorIndex (step e s) = (lastColorIndex s + length (createdAssetMarker e s)) mod 6"
  using step_lastColorIndex [of e s] assms by auto

lemma created_color_nth:
  "lastColorIndex s < 6 \<Longrightarrow> k < length (createdAssetMarkers evs s) \<Longrightarrow>
   am_color (createdAssetMarkers evs s ! k) = MARKER_COLORS ! ((lastColorIndex s + k) mod 6)"
proof (induction evs arbitrary: s k)
  case Nil
  then show ?case by simp
next
  case (Cons e es)
  let ?c = "createdAssetMarker e s"
  have next_index: "lastColorIndex (step e s) = (lastColorIndex s + length ?c) mod 6"
    using Cons.prems(1) by (rule step_lastColorIndex_mod)
  show ?case
  proof (cases "k < length ?c")
    case True
    with step_created_length [of e s] have k0: "k = 0" by simp
    from True have "?c ! k \<in> set ?c" by simp
    then have "am_color (?c ! k) = MARKER_COLORS ! lastColorIndex s"
      by (rule step_created_color)
    with True k0 Cons.prems(1) show ?thesis by (simp add: nth_append)
  next
    case False
    then have rest: "k - length ?c < length (createdAssetMarkers es (step e s))"
      using Cons.prems(2) by simp
    have "lastColorIndex (step e s) < 6" by (simp add: next_index)
    from Cons.IH [OF this rest]
    have "am_color (createdAssetMarkers es (step e s) ! (k - length ?c))
            = MARKER_COLORS ! (((lastColorIndex s + length ?c) mod 6 + (k - length ?c)) mod 6)"
      by (simp add: next_index)
    also have "((lastColorIndex s + length ?c) mod 6 + (k - length ?c)) mod 6
                 = (lastColorIndex s + length ?c + (k - length ?c)) mod 6"
      by (simp add: mod_add_left_eq)
    also have "lastColorIndex s + length ?c + (k - length ?c) = lastColorIndex s + k"
      using False by simp
    finally show ?thesis using False by (simp add: nth_append)
  qed
qed

text \<open>The colour index stays inside the palette along every run.\<close>

lemma run_lastColorIndex: "lastColorIndex s < 6 \<Longrightarrow> lastColorIndex (run evs s) < 6"
proof (induction evs arbitrary: s)
  case Nil
  then show ?case by simp
next
  case (Cons e es)
  have "lastColorIndex (step e s) < 6"
    by (simp add: step_lastColorIndex_mod [OF Cons.prems])
  then show ?case by (simp add: Cons.IH)
qed

text \<open>
  C8. The palette has 6 distinct colours. Along every run of the application from its
  initial state, whatever else happens between the creations (removals, updates, undo,
  failed or repeated generations, uploads), the \<open>k\<close>-th asset marker created (counting
  from 0) receives the palette colour at index \<open>k mod 6\<close>.
\<close>

theorem round_robin_colors:
  "length MARKER_COLORS = 6 \<and> distinct MARKER_COLORS
   \<and> (k < length (createdAssetMarkers evs initialApp) \<longrightarrow>
        am_color (createdAssetMarkers evs initialApp ! k) = MARKER_COLORS ! (k mod 6))"
  using created_color_nth [of initialApp k evs]
  by (simp add: initialApp_def MARKER_COLORS_def)

text \<open>
  In \<open>exampleRun\<close> the first marker is removed before the second drop: the second marker
  created still gets the second colour, and it is the only marker left.
\<close>

theorem round_robin_colors_witness:
  "length (createdAssetMarkers exampleRun initialApp) = 2
   \<and> am_color (createdAssetMarkers exampleRun initialApp ! 1) = ''#60A5FA''
   \<and> length (assetMarkers (run exampleRun initialApp)) = 1"
proof -
  have len: "length (createdAssetMarkers exampleRun initialApp) = 2"
    by (simp add: exampleRun_def createdAssetMarker_def handleBaseImageSet_def
          handleInsertImageAdd_def handleRemoveAssetMarker_def handleResetZoom_def
          saveStateToHistory_def startLoading_def handleAssetGeneration_def getNextColor_def
          Promise_all_def withFreshIds_def initialApp_def exampleBase_def exampleAsset_def
          allSucceed_def exampleUuid_def Let_def upt_rec)
  have left: "length (assetMarkers (run exampleRun initialApp)) = 1"
    by (simp add: exampleRun_def handleBaseImageSet_def
          handleInsertImageAdd_def handleRemoveAssetMarker_def handleResetZoom_def
          saveStateToHistory_def startLoading_def handleAssetGeneration_def getNextColor_def
          Promise_all_def withFreshIds_def initialApp_def exampleBase_def exampleAsset_def
          allSucceed_def exampleUuid_def Let_def upt_rec)
  show ?thesis
    using round_robin_colors [of 1 exampleRun] len left by (simp add: MARKER_COLORS_def)
qed

subsection \<open>Arithmetic on finite numbers\<close>

text \<open>
  The operations on finite numbers are the operations on the reals.
\<close>

lemma jsub_Fin: "jsub (Fin a) (Fin b) = Fin (a - b)"
  by (simp add: jsub_def)

lemma jmul_Fin: "jmul (Fin a) (Fin b) = Fin (a * b)"
  by simp

lemma jgt_Fin: "jgt (Fin a) (Fin b) = (b < a)"
  by (simp add: jgt_def)

lemma Math_min_Fin: "Math_min (Fin a) (Fin b) = Fin (min a b)"
  by (simp add: min_def)

lemma Math_max_Fin: "Math_max (Fin a) (Fin b) = Fin (max a b)"
  by (simp add: max_def)

lemma clamp_div:
  fixes v w :: real
  assumes "0 < w"
  shows "max 0 (min v w) / w = max 0 (min 1 (v / w))"
proof -
  have "min v w / w = min (v / w) 1"
    using assms by (simp add: min_def divide_simps)
  then show ?thesis
    using assms by (simp add: max_def min_def divide_simps)
qed

lemma inside_div:
  fixes v w :: real
  assumes "0 < w" "\<not> v < 0" "\<not> w < v"
  shows "v / w = max 0 (min 1 (v / w))"
  using assms by (simp add: max_def min_def divide_simps)

lemma clamp_cases:
  fixes ix iy w h :: real
  assumes "0 < w" and "0 < h"
  shows "(if ix < 0 \<or> w < ix \<or> iy < 0 \<or> h < iy
          then Some \<lparr>dc_x = Fin (max 0 (min ix w) / w), dc_y = Fin (max 0 (min iy h) / h)\<rparr>
          else Some \<lparr>dc_x = Fin (ix / w), dc_y = Fin (iy / h)\<rparr>)
         = Some \<lparr>dc_x = Fin (max 0 (min 1 (ix / w))), dc_y = Fin (max 0 (min 1 (iy / h)))\<rparr>"
proof (cases "ix < 0 \<or> w < ix \<or> iy < 0 \<or> h < iy")
  case True
  then show ?thesis
    by (simp only: if_True clamp_div [OF assms(1)] clamp_div [OF assms(2)])
next
  case False
  then have "ix / w = max 0 (min 1 (ix / w))" and "iy / h = max 0 (min 1 (iy / h))"
    using inside_div [OF assms(1), of ix] inside_div [OF assms(2), of iy] by auto
  with False show ?thesis by (simp only: if_False)
qed

subsection \<open>The forward transform on a healthy geometry\<close>

text \<open>
  With the container attached and finite inputs the transform has a closed form; it
  depends on the viewport through the pre-transform position only, and on the canvas
  through the container and the geometry only.
\<close>

lemma getRelativeCoords_finite:
  assumes "canvasRef c = Some container"
      and "zoom a = Fin z" and "z \<noteq> 0"
      and "canvasOffset a = (Fin ox, Fin oy)"
      and "renderedImageGeom c
             = \<lparr>geom_x = Fin gx, geom_y = Fin gy, geom_width = Fin w, geom_height = Fin h\<rparr>"
      and "0 < w" and "0 < h"
  shows "getRelativeCoords a c e =
           Some \<lparr>dc_x = Fin (max 0 (min 1
                     (((clientX e - rect_left (boundingRect container) - ox) / z - gx) / w))),
                 dc_y = Fin (max 0 (min 1
                     (((clientY e - rect_top (boundingRect container) - oy) / z - gy) / h)))\<rparr>"
proof -
  let ?ix = "(clientX e - rect_left (boundingRect container) - ox) / z - gx"
  let ?iy = "(clientY e - rect_top (boundingRect container) - oy) / z - gy"
  have w0: "w \<noteq> 0" and h0: "h \<noteq> 0" using assms(6,7) by simp_all
  have "getRelativeCoords a c e =
          (if ?ix < 0 \<or> w < ?ix \<or> ?iy < 0 \<or> h < ?iy
           then Some \<lparr>dc_x = Fin (max 0 (min ?ix w) / w), dc_y = Fin (max 0 (min ?iy h) / h)\<rparr>
           else Some \<lparr>dc_x = Fin (?ix / w), dc_y = Fin (?iy / h)\<rparr>)"
    using assms(1-5) w0 h0
    by (simp add: getRelativeCoords_def Let_def jsub_Fin jgt_Fin Math_min_Fin Math_max_Fin)
  also have "\<dots> = Some \<lparr>dc_x = Fin (max 0 (min 1 (?ix / w))),
                         dc_y = Fin (max 0 (min 1 (?iy / h)))\<rparr>"
    using assms(6,7) by (rule clamp_cases)
  finally show ?thesis .
qed

lemma getRelativeCoords_pre:
  assumes "canvasRef c = Some container"
      and "jdiv (jsub (Fin (clientX e - rect_left (boundingRect container))) (fst (canvasOffset a')))
             (zoom a')
           = jdiv (jsub (Fin (clientX e - rect_left (boundingRect container))) (fst (canvasOffset a)))
               (zoom a)"
      and "jdiv (jsub (Fin (clientY e - rect_top (boundingRect container))) (snd (canvasOffset a')))
             (zoom a')
           = jdiv (jsub (Fin (clientY e - rect_top (boundingRect container))) (snd (canvasOffset a)))
               (zoom a)"
  shows "getRelativeCoords a' c e = getRelativeCoords a c e"
  using assms by (simp add: getRelativeCoords_def)

lemma getRelativeCoords_cong:
  "canvasRef c' = canvasRef c \<Longrightarrow> renderedImageGeom c' = renderedImageGeom c \<Longrightarrow>
   zoom a' = zoom a \<Longrightarrow> canvasOffset a' = canvasOffset a \<Longrightarrow>
   getRelativeCoords a' c' e = getRelativeCoords a c e"
  by (cases "canvasRef c") (simp_all add: getRelativeCoords_def)

lemma getRelativeCoords_Some:
  "canvasRef c \<noteq> None \<Longrightarrow> \<exists>coords. getRelativeCoords a c e = Some coords"
  by (cases "canvasRef c") (simp_all add: getRelativeCoords_def Let_def)

lemma getRelativeCoords_None_iff: "getRelativeCoords a c e = None \<longleftrightarrow> canvasRef c = None"
  by (cases "canvasRef c") (simp_all add: getRelativeCoords_def Let_def)

lemma labelAt_cong:
  "hitCanvas c' = hitCanvas c \<Longrightarrow> segmentationData a' = segmentationData a \<Longrightarrow>
   labelAt a' c' coords = labelAt a c coords"
  by (simp add: labelAt_def)

lemma calculateGeom_unloaded:
  "(case imageRef c of None \<Rightarrow> True | Some (imgW, imgH) \<Rightarrow> imgW = 0 \<or> imgH = 0)
   \<Longrightarrow> calculateGeom c = c"
  by (auto simp: calculateGeom_def split: option.splits)

subsection \<open>Zoom steps\<close>

text \<open>
  A zoom step from a finite non-zero zoom gives a finite non-zero zoom, and the new
  offset keeps the pre-transform position of the zoom centre.
\<close>

lemma zoom_in_value:
  assumes "z \<noteq> 0"
  shows "\<exists>nz. Math_min (jmul (Fin z) ZOOM_STEP) MAX_ZOOM = Fin nz \<and> nz \<noteq> 0"
proof -
  have "Math_min (jmul (Fin z) ZOOM_STEP) MAX_ZOOM = Fin (min (z * (12 / 10)) 5)"
    by (simp only: ZOOM_STEP_def MAX_ZOOM_def jmul_Fin Math_min_Fin)
  moreover have "min (z * (12 / 10)) 5 \<noteq> 0"
    using assms by (simp add: min_def)
  ultimately show ?thesis by blast
qed

lemma zoom_out_value:
  "\<exists>nz. Math_max (jdiv (Fin z) ZOOM_STEP) MIN_ZOOM = Fin nz \<and> nz \<noteq> 0"
proof -
  have "Math_max (jdiv (Fin z) ZOOM_STEP) MIN_ZOOM = Fin (max (z / (12 / 10)) (2 / 10))"
    by (simp add: ZOOM_STEP_def MIN_ZOOM_def Math_max_Fin del: max_less_iff_conj)
  moreover have "max (z / (12 / 10)) (2 / 10) \<noteq> 0"
    by (simp add: max_def)
  ultimately show ?thesis by blast
qed

lemma wheel_invariant:
  assumes c: "canvasRef c = Some container"
      and z: "zoom a = Fin z" "z \<noteq> 0"
      and off: "canvasOffset a = (Fin ox, Fin oy)"
  shows "getRelativeCoords (deliver env (snd (handleWheel a c e)) a) c e = getRelativeCoords a c e"
proof (cases "isDisabled a \<or> displayImage a = None")
  case True
  then show ?thesis by (auto simp: handleWheel_def deliver_def)
next
  case False
  obtain nz where nz: "(if 0 < deltaY e then Math_max (jdiv (Fin z) ZOOM_STEP) MIN_ZOOM
                         else Math_min (jmul (Fin z) ZOOM_STEP) MAX_ZOOM) = Fin nz" "nz \<noteq> 0"
    using zoom_in_value [OF z(2)] zoom_out_value [of z] by (cases "0 < deltaY e") auto
  show ?thesis
  proof (cases "nz = z")
    case True
    with False c z nz(1) show ?thesis
      by (simp add: handleWheel_def deliver_def Let_def)
  next
    case neq: False
    let ?mx = "clientX e - rect_left (boundingRect container)"
    let ?my = "clientY e - rect_top (boundingRect container)"
    let ?nox = "jsub (Fin ?mx) (jmul (jdiv (Fin nz) (Fin z)) (jsub (Fin ?mx) (Fin ox)))"
    let ?noy = "jsub (Fin ?my) (jmul (jdiv (Fin nz) (Fin z)) (jsub (Fin ?my) (Fin oy)))"
    have cb: "snd (handleWheel a c e) = [OnSetZoom (Fin nz), OnSetCanvasOffset (?nox, ?noy)]"
      using False c z off nz(1) neq by (simp add: handleWheel_def Let_def)
    have st: "deliver env (snd (handleWheel a c e)) a
                = a\<lparr>zoom := Fin nz, canvasOffset := (?nox, ?noy)\<rparr>"
      by (simp add: cb deliver_def)
    show ?thesis
      unfolding st
      using z(2) nz(2)
      by (intro getRelativeCoords_pre [OF c]) (simp_all add: z(1) off jsub_Fin field_simps)
  qed
qed

lemma zoom_buttons_invariant:
  assumes c: "canvasRef c = Some container"
      and z: "zoom a = Fin z" "z \<noteq> 0"
      and off: "canvasOffset a = (Fin ox, Fin oy)"
      and centre: "clientX e = rect_left (boundingRect container) + rect_width (boundingRect container) / 2"
                  "clientY e = rect_top (boundingRect container) + rect_height (boundingRect container) / 2"
  shows "getRelativeCoords (handleZoomIn (Some (boundingRect container)) a) c e
           = getRelativeCoords a c e"
    and "getRelativeCoords (handleZoomOut (Some (boundingRect container)) a) c e
           = getRelativeCoords a c e"
proof -
  obtain zi where zi: "Math_min (jmul (Fin z) ZOOM_STEP) MAX_ZOOM = Fin zi" "zi \<noteq> 0"
    using zoom_in_value [OF z(2)] by blast
  obtain zo where zo: "Math_max (jdiv (Fin z) ZOOM_STEP) MIN_ZOOM = Fin zo" "zo \<noteq> 0"
    using zoom_out_value [of z] by blast
  show "getRelativeCoords (handleZoomIn (Some (boundingRect container)) a) c e
           = getRelativeCoords a c e"
  proof (cases "zi = z")
    case True
    then show ?thesis using z zi(1) by (simp add: handleZoomIn_def)
  next
    case False
    then show ?thesis
      using z(2) zi(2)
      by (intro getRelativeCoords_pre [OF c])
         (simp_all add: handleZoomIn_def Let_def z(1) zi(1) off centre jsub_Fin field_simps)
  qed
  show "getRelativeCoords (handleZoomOut (Some (boundingRect container)) a) c e
           = getRelativeCoords a c e"
  proof (cases "zo = z")
    case True
    then show ?thesis using z zo(1) by (simp add: handleZoomOut_def)
  next
    case False
    then show ?thesis
      using z(2) zo(2)
      by (intro getRelativeCoords_pre [OF c])
         (simp_all add: handleZoomOut_def Let_def z(1) zo(1) off centre jsub_Fin field_simps)
  qed
qed

subsection \<open>The label lookup\<close>

text \<open>
  A lookup at a finite coordinate within [0, 1] reads a pixel and does not throw, on
  every canvas whose sides are below \<open>2^31\<close>.
\<close>

lemma toLong_floor:
  assumes "0 \<le> v" and "v \<le> real w" and "w < 2 ^ 31"
  shows "toLong (Math_floor (Fin v)) = Some \<lfloor>v\<rfloor>"
proof -
  have lo: "0 \<le> \<lfloor>v\<rfloor>" using assms(1) by simp
  have "\<lfloor>v\<rfloor> \<le> int w" using assms(2) by (simp add: floor_le_iff)
  moreover have "int w < 2 ^ 31" using assms(3) by simp
  ultimately have hi: "\<lfloor>v\<rfloor> \<le> 2 ^ 31 - 1" by linarith
  show ?thesis
    using lo hi by (simp add: toLong_def Let_def)
qed

lemma getLabelFromHitMap_finite:
  assumes "0 \<le> x" and "x \<le> 1" and "0 \<le> y" and "y \<le> 1"
      and "\<And>hit. hc = Some hit \<Longrightarrow> bm_width hit < 2 ^ 31 \<and> bm_height hit < 2 ^ 31"
  shows "\<exists>label. getLabelFromHitMap hc segmentation \<lparr>dc_x = Fin x, dc_y = Fin y\<rparr> = Inr label"
proof (cases hc)
  case None
  then show ?thesis by (simp add: getLabelFromHitMap_def)
next
  case (Some hit)
  show ?thesis
  proof (cases segmentation)
    case None
    with Some show ?thesis by (simp add: getLabelFromHitMap_def)
  next
    case (Some masks)
    have w: "bm_width hit < 2 ^ 31" and h: "bm_height hit < 2 ^ 31"
      using assms(5) \<open>hc = Some hit\<close> by simp_all
    have xw: "0 \<le> x * real (bm_width hit)" "x * real (bm_width hit) \<le> real (bm_width hit)"
      using assms(1,2) by (simp_all add: mult_left_le_one_le)
    have yh: "0 \<le> y * real (bm_height hit)" "y * real (bm_height hit) \<le> real (bm_height hit)"
      using assms(3,4) by (simp_all add: mult_left_le_one_le)
    have lx: "toLong (Math_floor (jmul (Fin x) (Fin (real (bm_width hit)))))
                = Some \<lfloor>x * real (bm_width hit)\<rfloor>"
      using toLong_floor [OF xw w] by simp
    have ly: "toLong (Math_floor (jmul (Fin y) (Fin (real (bm_height hit)))))
                = Some \<lfloor>y * real (bm_height hit)\<rfloor>"
      using toLong_floor [OF yh h] by simp
    show ?thesis
      using \<open>hc = Some hit\<close> Some
      by (simp add: getLabelFromHitMap_def getImageData_def lx ly Let_def del: jmul.simps Math_floor.simps)
  qed
qed

subsection \<open>Loading masks\<close>

text \<open>
  Every \<open>onload\<close> keeps the size of the canvas and leaves on it the encoding of its
  own mask alone: the fill colour, scaled by the alpha of the mask.
\<close>

lemma scaled_simps:
  "scaled c 0 = 0" "scaled 0 s = 0" "scaled c 255 = c" "scaled 255 s = s"
  by (simp_all add: scaled_def)

lemma semi_transparent_read_back:
  "px_b (unpremultiplied \<lparr>px_r = 0, px_g = 0, px_b = scaled 1 128, px_a = scaled 255 128\<rparr>) = 2"
  by (simp add: unpremultiplied_def scaled_def)

lemma maskOnload_size:
  "bm_width (maskOnload decode index m bm) = bm_width bm
   \<and> bm_height (maskOnload decode index m bm) = bm_height bm"
  by (simp add: maskOnload_def drawImage_destination_in_def fillRect_all_def)

lemma masksLoaded_size:
  "bm_width (masksLoaded decode masks order bm) = bm_width bm
   \<and> bm_height (masksLoaded decode masks order bm) = bm_height bm"
  unfolding masksLoaded_def
  by (induction order arbitrary: bm) (simp_all add: maskOnload_size)

lemma maskOnload_pixel:
  assumes "bm_width bm \<noteq> 0" and "bm_height bm \<noteq> 0"
  shows "bm_pixel (maskOnload decode index m bm) x y =
           \<lparr>px_r = 0, px_g = 0,
            px_b = scaled (min (index + 1) 255) (min (decode (sm_mask m) x y) 255),
            px_a = min (decode (sm_mask m) x y) 255\<rparr>"
  using assms
  by (simp add: maskOnload_def drawImage_destination_in_def fillRect_all_def Let_def
        scaled_simps)

lemma masksLoaded_snoc:
  "k < length masks \<Longrightarrow>
   masksLoaded decode masks (order @ [k]) bm
     = maskOnload decode k (masks ! k) (masksLoaded decode masks order bm)"
  by (simp add: masksLoaded_def)

lemma masksLoaded_last_only:
  assumes "bm_width bm \<noteq> 0" and "bm_height bm \<noteq> 0" and "k < length masks"
  shows "bm_pixel (masksLoaded decode masks (order @ [k]) bm) x y =
           \<lparr>px_r = 0, px_g = 0,
            px_b = scaled (min (k + 1) 255) (min (decode (sm_mask (masks ! k)) x y) 255),
            px_a = min (decode (sm_mask (masks ! k)) x y) 255\<rparr>"
  unfolding masksLoaded_snoc [OF assms(3)]
  by (rule maskOnload_pixel) (simp_all add: masksLoaded_size assms)

subsection \<open>Gestures\<close>

text \<open>
  While a pan session is open (and no slider or marker drag is), a move within the
  threshold only records the cursor; from the first move beyond it, every move sets
  the pan offset. \<open>moves_phase\<close> gives the states and callbacks of a run of moves,
  \<open>gesture_run\<close> those of a whole gesture.
\<close>

lemma deliver_Nil: "deliver env [] a = a"
  by (simp add: deliver_def)

lemma deliver_offset: "deliver env [OnSetCanvasOffset off] a = a\<lparr>canvasOffset := off\<rparr>"
  by (simp add: deliver_def)

lemma canvasOffset_deliver_add:
  "canvasOffset (deliver env [OnAddMarker coords label] a) = canvasOffset a"
  by (simp add: deliver_def handleAddMarker_def saveStateToHistory_def Let_def)

lemma handleMouseMove_panning:
  assumes "isPanning c" and "\<not> isSliderDragging a" and "draggedMarker c = None"
  shows "handleMouseMove a c e =
           (if didDrag c \<or> \<not> within5 (mouseDownPos c) e
            then (c\<lparr>cursorPosition := cursorAt c e, didDrag := True\<rparr>,
                  [OnSetCanvasOffset (follow c e)])
            else (c\<lparr>cursorPosition := cursorAt c e\<rparr>, []))"
proof -
  have c1: "(case canvasRef c of
               Some container \<Rightarrow>
                 c\<lparr>cursorPosition :=
                      (clientX e - rect_left (boundingRect container),
                       clientY e - rect_top (boundingRect container))\<rparr>
             | None \<Rightarrow> c) = c\<lparr>cursorPosition := cursorAt c e\<rparr>"
    by (simp add: cursorAt_def split: option.splits)
  have far: "(5 < \<bar>clientX e - fst (mouseDownPos c)\<bar> \<or> 5 < \<bar>clientY e - snd (mouseDownPos c)\<bar>)
               = (\<not> within5 (mouseDownPos c) e)"
    by (auto simp: within5_def)
  show ?thesis
  proof (cases "didDrag c")
    case True
    then have same: "c\<lparr>cursorPosition := cursorAt c e\<rparr>
                       = c\<lparr>cursorPosition := cursorAt c e, didDrag := True\<rparr>" by simp
    show ?thesis
      unfolding handleMouseMove_def mouseMoved_def Let_def c1 far
      using assms True same by (simp add: follow_def)
  next
    case False
    show ?thesis
      unfolding handleMouseMove_def mouseMoved_def Let_def c1 far
      using assms False by (simp add: follow_def)
  qed
qed

lemma cursorAt_update [simp]:
  "cursorAt (c\<lparr>cursorPosition := cursorAt c m\<rparr>) e = cursorAt c e"
  "cursorAt (c\<lparr>cursorPosition := cursorAt c m, didDrag := d\<rparr>) e = cursorAt c e"
  by (simp_all add: cursorAt_def split: option.splits)

lemma follow_update [simp]:
  "follow (c\<lparr>cursorPosition := p\<rparr>) e = follow c e"
  "follow (c\<lparr>cursorPosition := p, didDrag := d\<rparr>) e = follow c e"
  by (simp_all add: follow_def)

lemma moves_phase:
  assumes "isPanning c" and "\<not> isSliderDragging a" and "draggedMarker c = None"
  shows "interact env (map MouseMove ms) (a, c) =
            ((a\<lparr>canvasOffset :=
                   (if (didDrag c \<or> \<not> list_all (within5 (mouseDownPos c)) ms) \<and> ms \<noteq> []
                    then follow c (last ms) else canvasOffset a)\<rparr>,
              c\<lparr>cursorPosition := (if ms = [] then cursorPosition c else cursorAt c (last ms)),
                 didDrag := (didDrag c \<or> \<not> list_all (within5 (mouseDownPos c)) ms)\<rparr>),
             map (\<lambda>m. OnSetCanvasOffset (follow c m))
               (if didDrag c then ms else dropWhile (within5 (mouseDownPos c)) ms))"
  using assms
proof (induction ms arbitrary: a c)
  case Nil
  then show ?case by simp
next
  case (Cons m ms)
  show ?case
  proof (cases "didDrag c \<or> \<not> within5 (mouseDownPos c) m")
    case True
    let ?c1 = "c\<lparr>cursorPosition := cursorAt c m, didDrag := True\<rparr>"
    let ?a1 = "a\<lparr>canvasOffset := follow c m\<rparr>"
    have h: "handleMouseMove a c m = (?c1, [OnSetCanvasOffset (follow c m)])"
      using handleMouseMove_panning [OF Cons.prems, of m] True by simp
    have ih: "interact env (map MouseMove ms) (?a1, ?c1) =
            ((?a1\<lparr>canvasOffset :=
                   (if (didDrag ?c1 \<or> \<not> list_all (within5 (mouseDownPos ?c1)) ms) \<and> ms \<noteq> []
                    then follow ?c1 (last ms) else canvasOffset ?a1)\<rparr>,
              ?c1\<lparr>cursorPosition := (if ms = [] then cursorPosition ?c1 else cursorAt ?c1 (last ms)),
                 didDrag := (didDrag ?c1 \<or> \<not> list_all (within5 (mouseDownPos ?c1)) ms)\<rparr>),
             map (\<lambda>m. OnSetCanvasOffset (follow ?c1 m))
               (if didDrag ?c1 then ms else dropWhile (within5 (mouseDownPos ?c1)) ms))"
      by (rule Cons.IH) (use Cons.prems in simp_all)
    show ?thesis
      using True by (auto simp: h ih deliver_offset)
  next
    case False
    let ?c1 = "c\<lparr>cursorPosition := cursorAt c m\<rparr>"
    have h: "handleMouseMove a c m = (?c1, [])"
      using handleMouseMove_panning [OF Cons.prems, of m] False by simp
    have ih: "interact env (map MouseMove ms) (a, ?c1) =
            ((a\<lparr>canvasOffset :=
                   (if (didDrag ?c1 \<or> \<not> list_all (within5 (mouseDownPos ?c1)) ms) \<and> ms \<noteq> []
                    then follow ?c1 (last ms) else canvasOffset a)\<rparr>,
              ?c1\<lparr>cursorPosition := (if ms = [] then cursorPosition ?c1 else cursorAt ?c1 (last ms)),
                 didDrag := (didDrag ?c1 \<or> \<not> list_all (within5 (mouseDownPos ?c1)) ms)\<rparr>),
             map (\<lambda>m. OnSetCanvasOffset (follow ?c1 m))
               (if didDrag ?c1 then ms else dropWhile (within5 (mouseDownPos ?c1)) ms))"
      by (rule Cons.IH) (use Cons.prems in simp_all)
    show ?thesis
      using False by (auto simp: h ih deliver_Nil)
  qed
qed

lemma interact_append:
  "interact env (xs @ ys) st =
     (let (st1, cb1) = interact env xs st; (st2, cb2) = interact env ys st1
      in (st2, cb1 @ cb2))"
proof (induction xs arbitrary: st)
  case Nil
  then show ?case by (cases st) (simp split: prod.splits)
next
  case (Cons x xs)
  obtain a c where st: "st = (a, c)" by (cases st)
  show ?case by (simp add: st Cons.IH Let_def split: prod.splits)
qed

lemma gesture_run:
  fixes moves :: "MouseEvent list" and down up :: MouseEvent and a :: app and c :: canvas
  assumes start: "\<not> isCompareMode a" "\<not> isDisabled a" "displayImage a \<noteq> None"
                 "\<not> targetInMarker down"
      and idle: "\<not> isSliderDragging a" "draggedMarker c = None"
  defines "c0 \<equiv> c\<lparr>didDrag := False, isPanning := True,
                     mouseDownPos := (clientX down, clientY down),
                     panStart := (jsub (Fin (clientX down)) (fst (canvasOffset a)),
                                  jsub (Fin (clientY down)) (snd (canvasOffset a)))\<rparr>"
      and "moved \<equiv> \<not> list_all (within5 (clientX down, clientY down)) moves"
  defines "a1 \<equiv> a\<lparr>canvasOffset := (if moved then follow c0 (last moves) else canvasOffset a)\<rparr>"
      and "c1 \<equiv> c0\<lparr>cursorPosition :=
                       (if moves = [] then cursorPosition c else cursorAt c (last moves)),
                     didDrag := moved\<rparr>"
  shows "interact env (MouseDown down # map MouseMove moves @ [MouseUp up]) (a, c) =
           ((deliver env (snd (handleMouseUp a1 c1 up)) a1, fst (handleMouseUp a1 c1 up)),
            map (\<lambda>m. OnSetCanvasOffset (follow c0 m))
                (dropWhile (within5 (clientX down, clientY down)) moves)
            @ snd (handleMouseUp a1 c1 up))"
proof -
  have down: "handleMouseDown a c down = (c0, [])"
    using start by (auto simp: handleMouseDown_def c0_def)
  have moved_ne: "moved \<Longrightarrow> moves \<noteq> []"
    by (auto simp: moved_def)
  have phase: "interact env (map MouseMove moves) (a, c0) =
                 ((a1, c1),
                  map (\<lambda>m. OnSetCanvasOffset (follow c0 m))
                      (dropWhile (within5 (clientX down, clientY down)) moves))"
  proof -
    have p: "isPanning c0" "draggedMarker c0 = None" "didDrag c0 = False"
            "mouseDownPos c0 = (clientX down, clientY down)" "cursorPosition c0 = cursorPosition c"
      using idle by (simp_all add: c0_def)
    have ca: "cursorAt c0 e = cursorAt c e" for e
      by (simp add: cursorAt_def c0_def split: option.splits)
    show ?thesis
      using moves_phase [OF p(1) idle(1) p(2), of env moves] moved_ne
      by (auto simp: p ca a1_def c1_def moved_def)
  qed
  show ?thesis
    by (simp add: interact_append down deliver_Nil phase Let_def split: prod.splits)
qed

subsection \<open>Concrete facts\<close>

lemma exampleWorkspace_props:
  "zoom exampleWorkspace = Fin 2" "canvasOffset exampleWorkspace = (Fin 30, Fin (- 12))"
  "\<not> isCompareMode exampleWorkspace" "\<not> isDisabled exampleWorkspace"
  "displayImage exampleWorkspace = Some exampleBase" "\<not> isSliderDragging exampleWorkspace"
  "segmentationData exampleWorkspace = None"
  by (simp_all add: exampleWorkspace_def initialApp_def isDisabled_def displayImage_def)

lemma exampleCanvas_props:
  "canvasRef exampleCanvas = Some exampleContainer"
  "renderedImageGeom exampleCanvas
     = \<lparr>geom_x = Fin 100, geom_y = Fin 0, geom_width = Fin 600, geom_height = Fin 600\<rparr>"
  "draggedMarker exampleCanvas = None" "hitCanvas exampleCanvas = None"
  by (simp_all add: exampleCanvas_def calculateGeom_def initialCanvas_def exampleContainer_def
        jgt_def jsub_def Let_def)

lemma collapsedCanvas_props:
  "canvasRef collapsedCanvas = Some collapsedContainer"
  "renderedImageGeom collapsedCanvas
     = \<lparr>geom_x = Fin 0, geom_y = Fin 300, geom_width = Fin 0, geom_height = Fin 0\<rparr>"
  "draggedMarker collapsedCanvas = None" "hitCanvas collapsedCanvas = None"
  by (simp_all add: collapsedCanvas_def calculateGeom_def initialCanvas_def
        collapsedContainer_def jgt_def jsub_def Let_def)

lemma exampleContainer_rect:
  "boundingRect exampleContainer
     = \<lparr>rect_left = 10, rect_top = 20, rect_width = 800, rect_height = 600\<rparr>"
  "boundingRect collapsedContainer
     = \<lparr>rect_left = 10, rect_top = 20, rect_width = 0, rect_height = 600\<rparr>"
  by (simp_all add: exampleContainer_def collapsedContainer_def)

lemma mouseAt_simps:
  "clientX (mouseAt x y m) = x" "clientY (mouseAt x y m) = y" "targetInMarker (mouseAt x y m) = m"
  by (simp_all add: mouseAt_def)

lemma example_coords:
  "getRelativeCoords exampleWorkspace exampleCanvas e =
     Some \<lparr>dc_x = Fin (max 0 (min 1 (((clientX e - 10 - 30) / 2 - 100) / 600))),
           dc_y = Fin (max 0 (min 1 (((clientY e - 20 - (- 12)) / 2 - 0) / 600)))\<rparr>"
  using getRelativeCoords_finite
          [OF exampleCanvas_props(1) exampleWorkspace_props(1) _ exampleWorkspace_props(2)
              exampleCanvas_props(2), of e]
  by (simp add: exampleContainer_rect)

subsection \<open>The forward transform\<close>

text \<open>
  C4. With the container attached, a finite non-zero zoom, a finite pan offset and a
  rendered geometry of positive width and height, the forward transform resolves every
  pointer position to a finite coordinate with both components in [0, 1]: each axis is
  the unclamped value \<open>((pointer - offset) / zoom - origin) / size\<close> clamped to [0, 1]
  on its own.
\<close>

theorem forward_transform_clamped:
  assumes "canvasRef c = Some container"
      and "zoom a = Fin z" and "z \<noteq> 0"
      and "canvasOffset a = (Fin ox, Fin oy)"
      and "renderedImageGeom c
             = \<lparr>geom_x = Fin gx, geom_y = Fin gy, geom_width = Fin w, geom_height = Fin h\<rparr>"
      and "0 < w" and "0 < h"
  shows "getRelativeCoords a c e =
           Some \<lparr>dc_x = Fin (max 0 (min 1
                     (((clientX e - rect_left (boundingRect container) - ox) / z - gx) / w))),
                 dc_y = Fin (max 0 (min 1
                     (((clientY e - rect_top (boundingRect container) - oy) / z - gy) / h)))\<rparr>
       \<and> 0 \<le> max 0 (min 1 (((clientX e - rect_left (boundingRect container) - ox) / z - gx) / w))
       \<and> max 0 (min 1 (((clientX e - rect_left (boundingRect container) - ox) / z - gx) / w)) \<le> 1
       \<and> 0 \<le> max 0 (min 1 (((clientY e - rect_top (boundingRect container) - oy) / z - gy) / h))
       \<and> max 0 (min 1 (((clientY e - rect_top (boundingRect container) - oy) / z - gy) / h)) \<le> 1"
  using getRelativeCoords_finite [OF assms, of e] by simp

text \<open>
  A pointer inside the image resolves to its own coordinate, one far to the right is
  clamped to 1 on the x axis alone.
\<close>

theorem forward_transform_clamped_witness:
  "getRelativeCoords exampleWorkspace exampleCanvas (mouseAt 403 302 False)
     = Some \<lparr>dc_x = Fin (163 / 1200), dc_y = Fin (49 / 200)\<rparr>
   \<and> getRelativeCoords exampleWorkspace exampleCanvas (mouseAt 5000 302 False)
     = Some \<lparr>dc_x = Fin 1, dc_y = Fin (49 / 200)\<rparr>"
  using forward_transform_clamped
          [OF exampleCanvas_props(1) exampleWorkspace_props(1) _ exampleWorkspace_props(2)
              exampleCanvas_props(2), of "mouseAt 403 302 False"]
        forward_transform_clamped
          [OF exampleCanvas_props(1) exampleWorkspace_props(1) _ exampleWorkspace_props(2)
              exampleCanvas_props(2), of "mouseAt 5000 302 False"]
  by (simp add: exampleContainer_rect mouseAt_simps)

subsection \<open>Zoom about the cursor\<close>

text \<open>
  C5. With the container attached, a finite non-zero zoom and a finite pan offset (the
  numbers computed exactly), a wheel step leaves the normalized coordinate under the
  cursor unchanged: the forward transform of the event position under the new zoom and
  offset equals the one under the old. The zoom buttons do the same for the centre of
  the container.
\<close>

theorem zoom_about_cursor_invariant:
  assumes "canvasRef c = Some container"
      and "zoom a = Fin z" and "z \<noteq> 0"
      and "canvasOffset a = (Fin ox, Fin oy)"
  shows "getRelativeCoords (deliver env (snd (handleWheel a c e)) a) c e
           = getRelativeCoords a c e
       \<and> (clientX p = rect_left (boundingRect container) + rect_width (boundingRect container) / 2
          \<and> clientY p = rect_top (boundingRect container) + rect_height (boundingRect container) / 2
          \<longrightarrow> getRelativeCoords (handleZoomIn (Some (boundingRect container)) a) c p
                = getRelativeCoords a c p
            \<and> getRelativeCoords (handleZoomOut (Some (boundingRect container)) a) c p
                = getRelativeCoords a c p)"
  using wheel_invariant [OF assms, of env e] zoom_buttons_invariant [OF assms, of p]
  by blast

text \<open>
  One wheel notch at (500, 300) takes the zoom from 2 to 2.4 and moves the offset; the
  coordinate under the cursor is (13/60, 73/300) before and after.
\<close>

theorem zoom_about_cursor_invariant_witness:
  "zoom (deliver exampleEnv (snd (handleWheel exampleWorkspace exampleCanvas wheelIn))
           exampleWorkspace) = Fin (12 / 5)
   \<and> canvasOffset (deliver exampleEnv (snd (handleWheel exampleWorkspace exampleCanvas wheelIn))
           exampleWorkspace) = (Fin (- 62), Fin (- (352 / 5)))
   \<and> getRelativeCoords exampleWorkspace exampleCanvas wheelIn
       = Some \<lparr>dc_x = Fin (13 / 60), dc_y = Fin (73 / 300)\<rparr>
   \<and> getRelativeCoords
         (deliver exampleEnv (snd (handleWheel exampleWorkspace exampleCanvas wheelIn))
            exampleWorkspace) exampleCanvas wheelIn
       = Some \<lparr>dc_x = Fin (13 / 60), dc_y = Fin (73 / 300)\<rparr>"
proof -
  have before: "getRelativeCoords exampleWorkspace exampleCanvas wheelIn
                  = Some \<lparr>dc_x = Fin (13 / 60), dc_y = Fin (73 / 300)\<rparr>"
    by (simp add: example_coords wheelIn_def)
  have cbs: "snd (handleWheel exampleWorkspace exampleCanvas wheelIn)
               = [OnSetZoom (Fin (12 / 5)), OnSetCanvasOffset (Fin (- 62), Fin (- (352 / 5)))]"
    by (simp add: handleWheel_def exampleWorkspace_props exampleCanvas_props
          exampleContainer_rect wheelIn_def ZOOM_STEP_def MAX_ZOOM_def jsub_def Let_def)
  show ?thesis
    using zoom_about_cursor_invariant
            [OF exampleCanvas_props(1) exampleWorkspace_props(1) _ exampleWorkspace_props(2),
             of exampleEnv wheelIn wheelIn]
          before
    by (simp add: cbs deliver_def)
qed

subsection \<open>Degenerate geometry\<close>

text \<open>
  The transform has no guard on the geometry: it clamps the image coordinate into
  \<open>[0, width]\<close> and divides by \<open>width\<close>, so on a geometry of width 0 it resolves
  every pointer event to the x coordinate NaN, and likewise for a height of 0.
\<close>

lemma zero_width_coords:
  assumes "canvasRef c = Some container" and "zoom a = Fin z" and "z \<noteq> 0"
      and "canvasOffset a = (Fin ox, Fin oy)"
      and "geom_x (renderedImageGeom c) = Fin gx" and "geom_y (renderedImageGeom c) = Fin gy"
      and "geom_width (renderedImageGeom c) = Fin 0"
      and "geom_height (renderedImageGeom c) = Fin gh"
  shows "\<exists>coords. getRelativeCoords a c e = Some coords \<and> dc_x coords = NaN"
  using assms
  by (simp add: getRelativeCoords_def jsub_def jgt_def Let_def)

lemma zero_height_coords:
  assumes "canvasRef c = Some container" and "zoom a = Fin z" and "z \<noteq> 0"
      and "canvasOffset a = (Fin ox, Fin oy)"
      and "geom_x (renderedImageGeom c) = Fin gx" and "geom_y (renderedImageGeom c) = Fin gy"
      and "geom_width (renderedImageGeom c) = Fin gw"
      and "geom_height (renderedImageGeom c) = Fin 0"
  shows "\<exists>coords. getRelativeCoords a c e = Some coords \<and> dc_y coords = NaN"
  using assms
  by (simp add: getRelativeCoords_def jsub_def jgt_def Let_def)

text \<open>
  C3 at a container collapsed to width 0, showing an image 400 by 400. The claim: on a
  rendered geometry of zero width or height the transform reports no coordinate, never
  NaN, and the gesture handlers change nothing. The code: the geometry computation
  yields a rectangle of width and height 0; the transform resolves the pointer to
  (NaN, NaN); a click calls the marker-add callback with that coordinate, which appends
  a marker at (NaN, NaN) to the workspace; and a drop places an asset there. The
  coordinates of a marker are documented as relative, from 0 to 1, and the transform
  clamps to that range on a geometry that is not degenerate.
\<close>

theorem zero_geometry_resolves_NaN:
  "renderedImageGeom collapsedCanvas
     = \<lparr>geom_x = Fin 0, geom_y = Fin 300, geom_width = Fin 0, geom_height = Fin 0\<rparr>
   \<and> getRelativeCoords exampleWorkspace collapsedCanvas (mouseAt 403 302 False)
       = Some \<lparr>dc_x = NaN, dc_y = NaN\<rparr>
   \<and> snd (interact exampleEnv clickGesture (exampleWorkspace, collapsedCanvas))
       = [OnAddMarker \<lparr>dc_x = NaN, dc_y = NaN\<rparr> None]
   \<and> markers (fst (fst (interact exampleEnv clickGesture (exampleWorkspace, collapsedCanvas))))
       = markers exampleWorkspace
         @ [\<lparr>em_id = exampleUuid 0, em_x = NaN, em_y = NaN, em_prompt = [],
             em_targetObjectLabel = None\<rparr>]
   \<and> snd (handleDrop exampleWorkspace collapsedCanvas (assetDragAt 403 302))
       = [OnHoverMask None, OnAssetDrop ''asset'' \<lparr>dc_x = NaN, dc_y = NaN\<rparr> None]"
proof -
  have co: "getRelativeCoords exampleWorkspace c e = Some \<lparr>dc_x = NaN, dc_y = NaN\<rparr>"
    if "canvasRef c = Some collapsedContainer"
       "renderedImageGeom c = renderedImageGeom collapsedCanvas"
       "clientX e = 403" "clientY e = 302" for c and e :: "'e Pointer_scheme"
    using that
    by (simp add: getRelativeCoords_def collapsedCanvas_props exampleWorkspace_props
          exampleContainer_rect jsub_def jgt_def Let_def)
  have cbs: "snd (interact exampleEnv clickGesture (exampleWorkspace, collapsedCanvas))
          = [OnAddMarker \<lparr>dc_x = NaN, dc_y = NaN\<rparr> None]"
    by (simp add: clickGesture_def handleMouseDown_def handleMouseMove_def mouseMoved_def
          handleMouseUp_def co collapsedCanvas_props exampleWorkspace_props mouseAt_simps
          deliver_def labelAt_def getLabelFromHitMap_def Let_def)
  have st: "markers (fst (fst (interact exampleEnv clickGesture (exampleWorkspace, collapsedCanvas))))
       = markers exampleWorkspace
         @ [\<lparr>em_id = exampleUuid 0, em_x = NaN, em_y = NaN, em_prompt = [],
             em_targetObjectLabel = None\<rparr>]"
    by (simp add: clickGesture_def handleMouseDown_def handleMouseMove_def mouseMoved_def
          handleMouseUp_def co collapsedCanvas_props exampleWorkspace_props mouseAt_simps
          deliver_def labelAt_def getLabelFromHitMap_def Let_def
          handleAddMarker_def saveStateToHistory_def exampleEnv_def)
  have dropped: "snd (handleDrop exampleWorkspace collapsedCanvas (assetDragAt 403 302))
       = [OnHoverMask None, OnAssetDrop ''asset'' \<lparr>dc_x = NaN, dc_y = NaN\<rparr> None]"
    by (simp add: handleDrop_def co collapsedCanvas_props exampleWorkspace_props
          assetDragAt_def labelAt_def getLabelFromHitMap_def Let_def)
  show ?thesis
    using cbs st dropped by (simp add: co collapsedCanvas_props mouseAt_simps)
qed

subsection \<open>The panning threshold\<close>

text \<open>
  C6, as the code has it. A gesture is a pointer-down outside any marker (not in compare
  mode, not disabled, an image displayed, no slider or marker drag in progress),
  pointer-moves, and a pointer-up. The threshold is tested on the pointer-moves only.
  If every move stays within 5 px of the down-position on both axes and the pointer is
  released outside any marker, exactly one marker-add fires, at the resolved release
  coordinate with the label looked up there, and the pan offset is unchanged (should
  the lookup throw, which it cannot at a finite coordinate within [0, 1], nothing
  fires); released over a marker, nothing fires. If some move exceeds 5 px on either
  axis, no marker-add fires and the pan offset ends at the original offset plus the
  delta from the down-position to the position of the last move.
\<close>

theorem panning_threshold:
  fixes moves :: "MouseEvent list" and down up :: MouseEvent and a a' :: app and c c' :: canvas
  assumes start: "\<not> isCompareMode a" "\<not> isDisabled a" "displayImage a \<noteq> None"
                 "\<not> targetInMarker down"
      and idle: "\<not> isSliderDragging a" "draggedMarker c = None"
      and attached: "canvasRef c \<noteq> None"
      and offset: "canvasOffset a = (Fin ox, Fin oy)"
      and run: "interact env (MouseDown down # map MouseMove moves @ [MouseUp up]) (a, c)
                  = ((a', c'), callbacks)"
  shows "(list_all (within5 (clientX down, clientY down)) moves \<and> \<not> targetInMarker up \<longrightarrow>
            (\<exists>coords. getRelativeCoords a c up = Some coords
                \<and> (\<forall>label. labelAt a c coords = Inr label \<longrightarrow>
                       callbacks = [OnAddMarker coords label])
                \<and> (labelAt a c coords = Inl TypeError \<longrightarrow> callbacks = []))
            \<and> canvasOffset a' = canvasOffset a)
       \<and> (list_all (within5 (clientX down, clientY down)) moves \<and> targetInMarker up \<longrightarrow>
            callbacks = [] \<and> canvasOffset a' = canvasOffset a)
       \<and> (\<not> list_all (within5 (clientX down, clientY down)) moves \<longrightarrow>
            filter isAddMarker callbacks = []
            \<and> canvasOffset a' = (Fin (ox + (clientX (last moves) - clientX down)),
                                  Fin (oy + (clientY (last moves) - clientY down))))"
proof -
  define c0 where "c0 = c\<lparr>didDrag := False, isPanning := True,
                     mouseDownPos := (clientX down, clientY down),
                     panStart := (jsub (Fin (clientX down)) (fst (canvasOffset a)),
                                  jsub (Fin (clientY down)) (snd (canvasOffset a)))\<rparr>"
  define moved where "moved = (\<not> list_all (within5 (clientX down, clientY down)) moves)"
  define a1 where "a1 = a\<lparr>canvasOffset := (if moved then follow c0 (last moves) else canvasOffset a)\<rparr>"
  define c1 where "c1 = c0\<lparr>cursorPosition :=
                       (if moves = [] then cursorPosition c else cursorAt c (last moves)),
                     didDrag := moved\<rparr>"
  have g: "interact env (MouseDown down # map MouseMove moves @ [MouseUp up]) (a, c) =
           ((deliver env (snd (handleMouseUp a1 c1 up)) a1, fst (handleMouseUp a1 c1 up)),
            map (\<lambda>m. OnSetCanvasOffset (follow c0 m))
                (dropWhile (within5 (clientX down, clientY down)) moves)
            @ snd (handleMouseUp a1 c1 up))"
    unfolding c1_def a1_def moved_def c0_def by (rule gesture_run [OF start idle])
  have "((a', c'), callbacks) =
           ((deliver env (snd (handleMouseUp a1 c1 up)) a1, fst (handleMouseUp a1 c1 up)),
            map (\<lambda>m. OnSetCanvasOffset (follow c0 m))
                (dropWhile (within5 (clientX down, clientY down)) moves)
            @ snd (handleMouseUp a1 c1 up))"
    using run g by (simp only:)
  then have a': "a' = deliver env (snd (handleMouseUp a1 c1 up)) a1"
    and cbs: "callbacks = map (\<lambda>m. OnSetCanvasOffset (follow c0 m))
                (dropWhile (within5 (clientX down, clientY down)) moves)
              @ snd (handleMouseUp a1 c1 up)"
    by simp_all
  have c1_props: "isPanning c1" "didDrag c1 = moved" "canvasRef c1 = canvasRef c"
      "renderedImageGeom c1 = renderedImageGeom c" "hitCanvas c1 = hitCanvas c"
    by (simp_all add: c1_def c0_def)
  have a1_props: "\<not> isSliderDragging a1" "zoom a1 = zoom a" "segmentationData a1 = segmentationData a"
    using idle by (simp_all add: a1_def)
  have up_cbs: "snd (handleMouseUp a1 c1 up) =
      (if \<not> moved \<and> \<not> targetInMarker up
       then (case getRelativeCoords a1 c1 up of
               Some coords \<Rightarrow>
                 (case labelAt a1 c1 coords of
                    Inl thrown \<Rightarrow> [] | Inr label \<Rightarrow> [OnAddMarker coords label])
             | None \<Rightarrow> [])
       else [])"
    by (simp add: handleMouseUp_def c1_props a1_props Let_def split: option.splits sum.splits)
  show ?thesis
  proof (cases moved)
    case False
    then have all: "list_all (within5 (clientX down, clientY down)) moves"
      by (simp add: moved_def)
    then have nodrop: "dropWhile (within5 (clientX down, clientY down)) moves = []"
      by (simp add: list_all_iff)
    from False have a1a: "a1 = a" by (simp add: a1_def)
    obtain coords where co: "getRelativeCoords a c up = Some coords"
      using getRelativeCoords_Some [OF attached] by blast
    have co1: "getRelativeCoords a c1 up = Some coords"
      using co getRelativeCoords_cong [of c1 c a a up] by (simp add: c1_props)
    have l1: "labelAt a c1 coords = labelAt a c coords"
      by (rule labelAt_cong) (simp_all add: c1_props)
    have up': "snd (handleMouseUp a1 c1 up)
                 = (if targetInMarker up then []
                    else case labelAt a c coords of
                           Inl thrown \<Rightarrow> [] | Inr label \<Rightarrow> [OnAddMarker coords label])"
      unfolding up_cbs using False by (simp add: a1a co1 l1)
    have "canvasOffset a' = canvasOffset a"
      unfolding a' up'
      by (simp add: a1a canvasOffset_deliver_add deliver_Nil split: sum.splits)
    then show ?thesis
      using False all co by (simp add: cbs up' nodrop)
  next
    case True
    then have notall: "\<not> list_all (within5 (clientX down, clientY down)) moves"
      by (simp add: moved_def)
    have up_nil: "snd (handleMouseUp a1 c1 up) = []"
      using True by (simp add: up_cbs)
    have "canvasOffset a1 = follow c0 (last moves)"
      using True by (simp add: a1_def)
    also have "\<dots> = (Fin (ox + (clientX (last moves) - clientX down)),
                     Fin (oy + (clientY (last moves) - clientY down)))"
      by (simp add: follow_def c0_def offset jsub_Fin algebra_simps)
    finally have off: "canvasOffset a1 = (Fin (ox + (clientX (last moves) - clientX down)),
                     Fin (oy + (clientY (last moves) - clientY down)))" .
    have none: "filter isAddMarker callbacks = []"
      by (simp add: cbs up_nil filter_empty_conv)
    show ?thesis
      using notall none off by (simp add: a' up_nil deliver_Nil)
  qed
qed

text \<open>
  A drag of (100, 50) pans the offset from (30, -12) to (130, 38) and adds no marker; a
  click adds one marker at the release coordinate.
\<close>

theorem panning_threshold_witness:
  "filter isAddMarker (snd (interact exampleEnv dragGesture (exampleWorkspace, exampleCanvas))) = []
   \<and> canvasOffset (fst (fst (interact exampleEnv dragGesture (exampleWorkspace, exampleCanvas))))
       = (Fin 130, Fin 38)
   \<and> snd (interact exampleEnv clickGesture (exampleWorkspace, exampleCanvas))
       = [OnAddMarker \<lparr>dc_x = Fin (163 / 1200), dc_y = Fin (49 / 200)\<rparr> None]
   \<and> canvasOffset (fst (fst (interact exampleEnv clickGesture (exampleWorkspace, exampleCanvas))))
       = (Fin 30, Fin (- 12))"
proof -
  have attached: "canvasRef exampleCanvas \<noteq> None"
    by (simp add: exampleCanvas_props)
  have down: "\<not> targetInMarker (mouseAt 400 300 False)"
    by (simp add: mouseAt_simps)
  note start = exampleWorkspace_props(3) exampleWorkspace_props(4) _ down
    exampleWorkspace_props(6) exampleCanvas_props(3) attached exampleWorkspace_props(2)
  have shown: "displayImage exampleWorkspace \<noteq> None"
    by (simp add: exampleWorkspace_props)
  have coords: "getRelativeCoords exampleWorkspace exampleCanvas (mouseAt 403 302 False)
                  = Some \<lparr>dc_x = Fin (163 / 1200), dc_y = Fin (49 / 200)\<rparr>"
    by (simp add: example_coords mouseAt_simps)
  have label: "labelAt exampleWorkspace exampleCanvas coords = Inr None" for coords
    by (simp add: labelAt_def getLabelFromHitMap_def exampleCanvas_props)
  show ?thesis
    using panning_threshold
            [OF exampleWorkspace_props(3) exampleWorkspace_props(4) shown down
                exampleWorkspace_props(6) exampleCanvas_props(3) attached
                exampleWorkspace_props(2),
             of exampleEnv "[mouseAt 450 300 False, mouseAt 500 350 False]"
                "mouseAt 500 350 False"
                "fst (fst (interact exampleEnv dragGesture (exampleWorkspace, exampleCanvas)))"
                "snd (fst (interact exampleEnv dragGesture (exampleWorkspace, exampleCanvas)))"
                "snd (interact exampleEnv dragGesture (exampleWorkspace, exampleCanvas))"]
          panning_threshold
            [OF exampleWorkspace_props(3) exampleWorkspace_props(4) shown down
                exampleWorkspace_props(6) exampleCanvas_props(3) attached
                exampleWorkspace_props(2),
             of exampleEnv "[mouseAt 403 302 False]" "mouseAt 403 302 False"
                "fst (fst (interact exampleEnv clickGesture (exampleWorkspace, exampleCanvas)))"
                "snd (fst (interact exampleEnv clickGesture (exampleWorkspace, exampleCanvas)))"
                "snd (interact exampleEnv clickGesture (exampleWorkspace, exampleCanvas))"]
    unfolding dragGesture_def [symmetric] clickGesture_def [symmetric]
    by (simp add: within5_def mouseAt_simps coords label exampleWorkspace_props)
qed

text \<open>
  The claim as stated fails for a press released over a marker: the gesture starts
  outside any marker, moves 3 px and 2 px, and ends on a marker; no marker-add fires.
\<close>

theorem release_over_marker_counterexample:
  "\<not> targetInMarker (mouseAt 400 300 False)
   \<and> within5 (400, 300) (mouseAt 403 302 False)
   \<and> snd (interact exampleEnv releaseOverMarker (exampleWorkspace, exampleCanvas)) = []"
  by (simp add: releaseOverMarker_def handleMouseDown_def handleMouseMove_def mouseMoved_def
        handleMouseUp_def exampleCanvas_props exampleWorkspace_props mouseAt_simps
        within5_def deliver_def Let_def)

subsection \<open>The hit map\<close>

text \<open>
  What the raster holds once mask images have loaded: every \<open>onload\<close> fills the whole
  canvas and cuts it down to its own mask, so only the mask that loaded last is encoded.
\<close>

lemma buildHitMap_last_only:
  assumes "naturalWidth \<noteq> 0" and "naturalHeight \<noteq> 0" and "k < length masks"
  shows "bm_pixel (buildHitMap decode (Some (naturalWidth, naturalHeight)) (Some masks)
                     (loadOrder @ [k]) bm) x y =
           \<lparr>px_r = 0, px_g = 0,
            px_b = scaled (min (k + 1) 255) (min (decode (sm_mask (masks ! k)) x y) 255),
            px_a = min (decode (sm_mask (masks ! k)) x y) 255\<rparr>"
  using assms
  by (simp add: buildHitMap_def masksLoaded_last_only clearRect_all_def resized_def)

lemma buildHitMap_size:
  assumes "naturalWidth \<noteq> 0" and "naturalHeight \<noteq> 0"
  shows "bm_width (buildHitMap decode (Some (naturalWidth, naturalHeight)) (Some masks)
                     loadOrder bm) = naturalWidth
       \<and> bm_height (buildHitMap decode (Some (naturalWidth, naturalHeight)) (Some masks)
                     loadOrder bm) = naturalHeight"
  using assms
  by (simp add: buildHitMap_def masksLoaded_size clearRect_all_def resized_def)

text \<open>
  C1 at two masks that do not overlap, loaded in list order on an image 2 by 1. The
  raster has the natural size of the image. The pixel (0, 0) lies inside mask 0
  (\<open>boat\<close>), so the claim's encoding there is 1 and a lookup inside it should return
  \<open>boat\<close>; the raster has 0 there and the lookup returns no label. Only the mask loaded
  last (\<open>pier\<close>) resolves.
\<close>

theorem hit_map_keeps_last_loaded_mask_only:
  "bm_width loadedHitMap = 2 \<and> bm_height loadedHitMap = 1
   \<and> decodeHalves (sm_mask (twoMasks ! 0)) 0 0 = 255
   \<and> decodeHalves (sm_mask (twoMasks ! 1)) 0 0 = 0
   \<and> specEncoding decodeHalves twoMasks 0 0 = 1
   \<and> px_b (bm_pixel loadedHitMap 0 0) = 0
   \<and> getLabelFromHitMap (Some loadedHitMap) (Some twoMasks)
         \<lparr>dc_x = Fin (1 / 4), dc_y = Fin (1 / 2)\<rparr> = Inr None
   \<and> getLabelFromHitMap (Some loadedHitMap) (Some twoMasks)
         \<lparr>dc_x = Fin (3 / 4), dc_y = Fin (1 / 2)\<rparr> = Inr (Some ''pier'')"
proof -
  have px: "bm_pixel loadedHitMap x y =
              (if x = 1 then \<lparr>px_r = 0, px_g = 0, px_b = 2, px_a = 255\<rparr> else transparentBlack)"
    for x y
    using buildHitMap_last_only
            [where naturalWidth = 2 and naturalHeight = 1 and decode = decodeHalves
               and masks = twoMasks and loadOrder = "[0]" and k = 1
               and bm = "resized 300 150" and x = x and y = y]
    by (simp add: loadedHitMap_def twoMasks_def decodeHalves_def scaled_simps
          transparentBlack_def)
  have size: "bm_width loadedHitMap = 2" "bm_height loadedHitMap = 1"
    using buildHitMap_size
            [where naturalWidth = 2 and naturalHeight = 1 and decode = decodeHalves
               and masks = twoMasks and loadOrder = "[0, 1]" and bm = "resized 300 150"]
    by (simp_all add: loadedHitMap_def)
  have order: "rev [0..<length twoMasks] = [1, 0]"
    by (simp add: twoMasks_def upt_rec)
  have spec: "specEncoding decodeHalves twoMasks 0 0 = 1"
    unfolding specEncoding_def order by (simp add: twoMasks_def decodeHalves_def)
  have masks: "decodeHalves (sm_mask (twoMasks ! 0)) 0 0 = 255"
      "decodeHalves (sm_mask (twoMasks ! 1)) 0 0 = 0"
      "length twoMasks = 2" "sm_label (twoMasks ! 1) = ''pier''"
    by (simp_all add: twoMasks_def decodeHalves_def)
  show ?thesis
    by (simp add: size spec px masks masks [unfolded One_nat_def] getLabelFromHitMap_def
          getImageData_def toLong_def unpremultiplied_def transparentBlack_def Let_def)
qed

end
